theory Spec2Isabelle
  imports Main "HOL-Library.AList"
begin

section \<open>Types and checker errors\<close>

text \<open>
  The variants of \<^verbatim>\<open>Type\<close> the checker inspects (\<^verbatim>\<open>isEntity\<close>, \<^verbatim>\<open>isMeasure\<close>,
  \<^verbatim>\<open>isArray\<close>, \<^verbatim>\<open>isTuple\<close>, \<^verbatim>\<open>isTable\<close>, \<^verbatim>\<open>isStream\<close>, \<^verbatim>\<open>isFunctionDef\<close>, ...).
  A type variable of an overload table is a bare string in the source (\<open>TVar\<close>).
  A function definition used as a type is the schema object itself, kept by reference.
\<close>

type_synonym addr = nat

datatype ttype =
    Any | Boolean | String | Number | Currency | Time | Date | Location
  | Entity string
  | Measure string
  | Enum "string list"
  | Array ttype
  | Tuple "ttype list"
  | Table | Stream
  | FunctionDef addr
  | TVar string

text \<open>One constructor for each \<^verbatim>\<open>throw\<close> of the checker; \<open>JsCrash\<close> stands for the
  runtime's own exception on a property read of \<^verbatim>\<open>undefined\<close> or \<^verbatim>\<open>null\<close>.\<close>

datatype error =
    InvalidPrincipal
  | UnknownMemoryTable string
  | InvalidBuiltinAction string
  | InvalidBuiltin string string
  | UnknownFunction string string
  | VariableNotInScope string
  | EventNotAllowed
  | InvalidOperator string
  | InvalidParameterTypes ttype ttype string
  | InvalidFilterParameter string
  | InvalidParameter string
  | InvalidScalarExpression
  | InvalidAggregationField string
  | InvalidAggregation string
  | InvalidFieldType ttype string
  | StarNotValid string
  | InvalidField string
  | InvalidArgMinMaxField string string
  | InvalidRange
  | InvalidTimeRange
  | InvalidFieldName string
  | InvalidInputParameter string
  | InvalidType string
  | DuplicateInputParam string
  | Conflict string
  | FieldConflict string
  | NotImplemented
  | InvalidDeclarationType
  | NoGetFunction
  | AssertionFailed
  | JsCrash

section \<open>Assignability\<close>

text \<open>The type-variable scope of one overload attempt: the bindings of the named
  variables and of \<^verbatim>\<open>_unit\<close>.\<close>

record typeScope =
  tvars :: "(string \<times> ttype) list"
  unit :: "string option"

definition emptyTypeScope :: typeScope where
  "emptyTypeScope = \<lparr>tvars = [], unit = None\<rparr>"

text \<open>
  Modelled from the spec: \<^verbatim>\<open>Type.isAssignable\<close> lives in \<^verbatim>\<open>lib/type.js\<close>, which is not
  among the sources. The rules are those of the specification's section 4.1, tried in
  this order: a type variable as destination (bound: its binding decides, unbound: it is
  bound to the source type); \<open>Any\<close> on either side; the coercion of anything to
  \<open>String\<close>; measures, with the unit variable; entities of equal kind; arrays and tuples
  componentwise; otherwise identical types only. The function returns its verdict
  together with the scope it has written to. The first argument bounds the variable
  lookups: a binding is a source type, and is compared without a further lookup.
\<close>

fun isAssignableD :: "nat \<Rightarrow> bool \<Rightarrow> ttype \<Rightarrow> ttype \<Rightarrow> typeScope \<Rightarrow> bool \<times> typeScope"
and isAssignableDs :: "nat \<Rightarrow> bool \<Rightarrow> ttype list \<Rightarrow> ttype list \<Rightarrow> typeScope \<Rightarrow> bool \<times> typeScope"
where
  "isAssignableD d co src (TVar v) ts =
     (case map_of (tvars ts) v of
        Some b \<Rightarrow> (case d of 0 \<Rightarrow> (False, ts) | Suc d' \<Rightarrow> isAssignableD d' co src b ts)
      | None \<Rightarrow> (True, ts\<lparr>tvars := tvars ts @ [(v, src)]\<rparr>))"
| "isAssignableD d co src Any ts = (True, ts)"
| "isAssignableD d co src String ts = (src = Any \<or> co \<or> src = String, ts)"
| "isAssignableD d co src (Measure u) ts =
     (if src = Any then (True, ts)
      else case src of
        Measure us \<Rightarrow>
          (if u = [] then
             (case unit ts of
                None \<Rightarrow> (True, ts\<lparr>unit := Some us\<rparr>)
              | Some u0 \<Rightarrow> (u0 = us, ts))
           else (us = u, ts))
      | _ \<Rightarrow> (False, ts))"
| "isAssignableD d co src (Entity k) ts = (src = Any \<or> src = Entity k, ts)"
| "isAssignableD d co src (Array e) ts =
     (if src = Any then (True, ts)
      else case src of Array es \<Rightarrow> isAssignableD d co es e ts | _ \<Rightarrow> (False, ts))"
| "isAssignableD d co src (Tuple es) ts =
     (if src = Any then (True, ts)
      else case src of Tuple ss \<Rightarrow> isAssignableDs d co ss es ts | _ \<Rightarrow> (False, ts))"
| "isAssignableD d co src dst ts = (src = Any \<or> src = dst, ts)"
| "isAssignableDs d co [] [] ts = (True, ts)"
| "isAssignableDs d co (s # ss) (e # es) ts =
     (case isAssignableD d co s e ts of
        (True, ts') \<Rightarrow> isAssignableDs d co ss es ts'
      | (False, ts') \<Rightarrow> (False, ts'))"
| "isAssignableDs d co _ _ ts = (False, ts)"

definition isAssignable :: "ttype \<Rightarrow> ttype \<Rightarrow> typeScope \<Rightarrow> bool \<Rightarrow> bool \<times> typeScope" where
  "isAssignable src dst ts co = isAssignableD 1 co src dst ts"

section \<open>Operator tables\<close>

text \<open>An overload of a binary operator: the two operand types and the result type.\<close>

type_synonym overload = "ttype \<times> ttype \<times> ttype"

text \<open>\<^verbatim>\<open>BinaryOps\<close> of \<^verbatim>\<open>lib/builtin.js\<close>: the \<^verbatim>\<open>types\<close> of each operator, in the
  order of the file.\<close>

definition BinaryOps :: "(string \<times> overload list) list" where
  "BinaryOps =
   [(''+'', [(Measure [], Measure [], Measure []),
            (Number, Number, Number),
            (String, String, String)]),
    (''-'', [(Measure [], Measure [], Measure []),
            (Number, Number, Number),
            (Date, Date, Measure ''ms'')]),
    (''*'', [(Measure [], Number, Measure []),
            (Number, Measure [], Measure []),
            (Number, Number, Number)]),
    (''/'', [(Measure [], Measure [], Number),
            (Number, Number, Number)]),
    (''&&'', [(Boolean, Boolean, Boolean)]),
    (''||'', [(Boolean, Boolean, Boolean)]),
    (''>'', [(String, String, Boolean),
            (Measure [], Measure [], Boolean),
            (Number, Number, Boolean),
            (Date, Date, Boolean)]),
    (''<'', [(String, String, Boolean),
            (Measure [], Measure [], Boolean),
            (Number, Number, Boolean),
            (Date, Date, Boolean)]),
    (''>='', [(String, String, Boolean),
             (Measure [], Measure [], Boolean),
             (Number, Number, Boolean),
             (Date, Date, Boolean)]),
    (''<='', [(String, String, Boolean),
             (Measure [], Measure [], Boolean),
             (Number, Number, Boolean),
             (Date, Date, Boolean)]),
    (''='', [(Any, Any, Any)]),
    (''!='', [(Any, Any, Any)]),
    (''=~'', [(String, String, String)])]"

text \<open>
  The table of the scalar arithmetic operators \<^verbatim>\<open>+\<close>, \<^verbatim>\<open>-\<close>, \<^verbatim>\<open>*\<close>, \<^verbatim>\<open>/\<close>, which the
  checker reads as \<^verbatim>\<open>Builtin.ScalarExpressionOps\<close>. \<^verbatim>\<open>lib/builtin.js\<close> as given lists the
  overloads of these operators in \<^verbatim>\<open>BinaryOps\<close> and exports no table of that other name;
  the overloads are taken from there.
\<close>

definition ScalarExpressionOps :: "(string \<times> overload list) list" where
  "ScalarExpressionOps = filter (\<lambda>(name, _). name \<in> set [''+'', ''-'', ''*'', ''/'']) BinaryOps"

section \<open>Overload resolution\<close>

text \<open>The loop of \<^verbatim>\<open>resolveScalarExpressionOps\<close> over \<^verbatim>\<open>op.types\<close>: a fresh type scope for
  each overload; the first overload both operands are assignable to gives the result.\<close>

fun scalarOverloads :: "ttype \<Rightarrow> ttype \<Rightarrow> overload list \<Rightarrow> ttype option" where
  "scalarOverloads type_lhs type_rhs [] = None"
| "scalarOverloads type_lhs type_rhs ((o0, o1, o2) # rest) =
     (case isAssignable type_lhs o0 emptyTypeScope True of
        (False, _) \<Rightarrow> scalarOverloads type_lhs type_rhs rest
      | (True, ts1) \<Rightarrow>
          (case isAssignable type_rhs o1 ts1 True of
             (False, _) \<Rightarrow> scalarOverloads type_lhs type_rhs rest
           | (True, ts2) \<Rightarrow>
               (case (o2, unit ts2) of
                  (Measure _, Some u) \<Rightarrow> if u \<noteq> [] then Some (Measure u) else Some o2
                | _ \<Rightarrow> Some o2)))"

definition resolveScalarExpressionOps :: "ttype \<Rightarrow> string \<Rightarrow> ttype \<Rightarrow> error + ttype" where
  "resolveScalarExpressionOps type_lhs operator type_rhs =
     (case map_of ScalarExpressionOps operator of
        None \<Rightarrow> Inl (InvalidOperator operator)
      | Some types \<Rightarrow>
          (case scalarOverloads type_lhs type_rhs types of
             Some t \<Rightarrow> Inr t
           | None \<Rightarrow> Inl (InvalidParameterTypes type_lhs type_rhs operator)))"

text \<open>The loop of \<^verbatim>\<open>resolveFilterOverload\<close>: both operands and, against \<open>Boolean\<close>, the
  result type of the overload are tried in one type scope.\<close>

fun filterOverloads :: "ttype \<Rightarrow> ttype \<Rightarrow> overload list \<Rightarrow> overload option" where
  "filterOverloads type_lhs type_rhs [] = None"
| "filterOverloads type_lhs type_rhs ((o0, o1, o2) # rest) =
     (case isAssignable type_lhs o0 emptyTypeScope True of
        (False, _) \<Rightarrow> filterOverloads type_lhs type_rhs rest
      | (True, ts1) \<Rightarrow>
          (case isAssignable type_rhs o1 ts1 True of
             (False, _) \<Rightarrow> filterOverloads type_lhs type_rhs rest
           | (True, ts2) \<Rightarrow>
               (case isAssignable o2 Boolean ts2 True of
                  (False, _) \<Rightarrow> filterOverloads type_lhs type_rhs rest
                | (True, _) \<Rightarrow> Some (o0, o1, o2))))"

fun isEntity :: "ttype \<Rightarrow> bool" where
  "isEntity (Entity _) = True"
| "isEntity _ = False"

definition resolveFilterOverload :: "ttype \<Rightarrow> string \<Rightarrow> ttype \<Rightarrow> error + overload" where
  "resolveFilterOverload type_lhs operator type_rhs =
     (case map_of BinaryOps operator of
        None \<Rightarrow> Inl (InvalidOperator operator)
      | Some types \<Rightarrow>
          if isEntity type_lhs \<and> operator = ''=~''
          then Inl (InvalidParameterTypes type_lhs type_rhs operator)
          else (case filterOverloads type_lhs type_rhs types of
                  Some ov \<Rightarrow> Inr ov
                | None \<Rightarrow> Inl (InvalidParameterTypes type_lhs type_rhs operator)))"

section \<open>Schemas\<close>

text \<open>
  The fields of a function signature the checker reads and writes. An object of the
  source is an association list in insertion order (the order of \<^verbatim>\<open>for ... in\<close> and of
  \<^verbatim>\<open>Object.keys\<close> for names that are not array indices); \<open>AList.update\<close> keeps the
  place of a key that is there and appends a new one, as an assignment does.
  An array element may be missing: \<open>None\<close> is a hole or \<^verbatim>\<open>undefined\<close>. A value of
  \<^verbatim>\<open>index\<close> that is \<open>None\<close> is \<^verbatim>\<open>undefined\<close> or \<^verbatim>\<open>NaN\<close>, which compare and index alike.
\<close>

record schema =
  args :: "string option list"
  types :: "ttype option list"
  index :: "(string \<times> nat option) list"
  inReq :: "(string \<times> ttype) list"
  inOpt :: "(string \<times> ttype) list"
  out :: "(string \<times> ttype) list"

text \<open>\<^verbatim>\<open>Object.assign(target, source)\<close>.\<close>

definition assign_obj :: "('k \<times> 'v) list \<Rightarrow> ('k \<times> 'v) list \<Rightarrow> ('k \<times> 'v) list" where
  "assign_obj target source = fold (\<lambda>(k, v). AList.update k v) source target"

text \<open>\<^verbatim>\<open>name in obj\<close>, for the own properties of \<open>obj\<close>.\<close>

definition has_key :: "'k \<Rightarrow> ('k \<times> 'v) list \<Rightarrow> bool" where
  "has_key k obj = (k \<in> set (map fst obj))"

section \<open>The object store\<close>

text \<open>
  Schemas are objects, and the checker both shares and mutates them, so a schema in the
  abstract syntax tree or in a scope is a reference. The object holds six references in
  turn, to its two arrays and four maps. An address is a position in the list of its
  kind; allocation appends. The arrays of a scope's \<^verbatim>\<open>_lambda_args\<close> are shared between
  a scope and its copies and live among the arrays of names.
\<close>

record schemaObj =
  args_p :: addr
  types_p :: addr
  index_p :: addr
  inReq_p :: addr
  inOpt_p :: addr
  out_p :: addr

record store =
  objs :: "schemaObj list"
  nameArrs :: "string option list list"
  typeArrs :: "ttype option list list"
  indexObjs :: "(string \<times> nat option) list list"
  typeObjs :: "(string \<times> ttype) list list"

text \<open>The contents of the schema at an address.\<close>

definition load :: "store \<Rightarrow> addr \<Rightarrow> schema" where
  "load st a =
     (let ob = objs st ! a in
      \<lparr>args = nameArrs st ! args_p ob,
       types = typeArrs st ! types_p ob,
       index = indexObjs st ! index_p ob,
       inReq = typeObjs st ! inReq_p ob,
       inOpt = typeObjs st ! inOpt_p ob,
       out = typeObjs st ! out_p ob\<rparr>)"

text \<open>A new schema object over six new components.\<close>

definition alloc :: "schema \<Rightarrow> store \<Rightarrow> addr \<times> store" where
  "alloc s st =
     (length (objs st),
      \<lparr>objs = objs st @
         [\<lparr>args_p = length (nameArrs st), types_p = length (typeArrs st),
           index_p = length (indexObjs st), inReq_p = length (typeObjs st),
           inOpt_p = Suc (length (typeObjs st)), out_p = Suc (Suc (length (typeObjs st)))\<rparr>],
       nameArrs = nameArrs st @ [args s],
       typeArrs = typeArrs st @ [types s],
       indexObjs = indexObjs st @ [index s],
       typeObjs = typeObjs st @ [inReq s, inOpt s, out s]\<rparr>)"

text \<open>
  Modelled from the spec: the \<^verbatim>\<open>clone\<close> method of a schema belongs to the class of
  function definitions in \<^verbatim>\<open>lib/ast.js\<close>, which is not among the sources. The
  specification calls its result a fresh clone: a new object whose arrays and maps are
  copies.
\<close>

definition clone :: "addr \<Rightarrow> store \<Rightarrow> addr \<times> store" where
  "clone a st = alloc (load st a) st"

text \<open>A field of the schema object at \<open>a\<close> is either assigned a new array or map
  (\<open>set_\<close>), or the array or map it refers to is changed in place (\<open>upd_\<close>).\<close>

definition set_args :: "addr \<Rightarrow> string option list \<Rightarrow> store \<Rightarrow> store" where
  "set_args a v st =
     st\<lparr>objs := (objs st)[a := (objs st ! a)\<lparr>args_p := length (nameArrs st)\<rparr>],
        nameArrs := nameArrs st @ [v]\<rparr>"

definition set_types :: "addr \<Rightarrow> ttype option list \<Rightarrow> store \<Rightarrow> store" where
  "set_types a v st =
     st\<lparr>objs := (objs st)[a := (objs st ! a)\<lparr>types_p := length (typeArrs st)\<rparr>],
        typeArrs := typeArrs st @ [v]\<rparr>"

definition set_index :: "addr \<Rightarrow> (string \<times> nat option) list \<Rightarrow> store \<Rightarrow> store" where
  "set_index a v st =
     st\<lparr>objs := (objs st)[a := (objs st ! a)\<lparr>index_p := length (indexObjs st)\<rparr>],
        indexObjs := indexObjs st @ [v]\<rparr>"

definition set_inReq :: "addr \<Rightarrow> (string \<times> ttype) list \<Rightarrow> store \<Rightarrow> store" where
  "set_inReq a v st =
     st\<lparr>objs := (objs st)[a := (objs st ! a)\<lparr>inReq_p := length (typeObjs st)\<rparr>],
        typeObjs := typeObjs st @ [v]\<rparr>"

definition set_inOpt :: "addr \<Rightarrow> (string \<times> ttype) list \<Rightarrow> store \<Rightarrow> store" where
  "set_inOpt a v st =
     st\<lparr>objs := (objs st)[a := (objs st ! a)\<lparr>inOpt_p := length (typeObjs st)\<rparr>],
        typeObjs := typeObjs st @ [v]\<rparr>"

definition set_out :: "addr \<Rightarrow> (string \<times> ttype) list \<Rightarrow> store \<Rightarrow> store" where
  "set_out a v st =
     st\<lparr>objs := (objs st)[a := (objs st ! a)\<lparr>out_p := length (typeObjs st)\<rparr>],
        typeObjs := typeObjs st @ [v]\<rparr>"

definition upd_args :: "addr \<Rightarrow> string option list \<Rightarrow> store \<Rightarrow> store" where
  "upd_args a v st = st\<lparr>nameArrs := (nameArrs st)[args_p (objs st ! a) := v]\<rparr>"

definition upd_types :: "addr \<Rightarrow> ttype option list \<Rightarrow> store \<Rightarrow> store" where
  "upd_types a v st = st\<lparr>typeArrs := (typeArrs st)[types_p (objs st ! a) := v]\<rparr>"

definition upd_index :: "addr \<Rightarrow> (string \<times> nat option) list \<Rightarrow> store \<Rightarrow> store" where
  "upd_index a v st = st\<lparr>indexObjs := (indexObjs st)[index_p (objs st ! a) := v]\<rparr>"

definition upd_inReq :: "addr \<Rightarrow> (string \<times> ttype) list \<Rightarrow> store \<Rightarrow> store" where
  "upd_inReq a v st = st\<lparr>typeObjs := (typeObjs st)[inReq_p (objs st ! a) := v]\<rparr>"

definition upd_inOpt :: "addr \<Rightarrow> (string \<times> ttype) list \<Rightarrow> store \<Rightarrow> store" where
  "upd_inOpt a v st = st\<lparr>typeObjs := (typeObjs st)[inOpt_p (objs st ! a) := v]\<rparr>"

definition upd_out :: "addr \<Rightarrow> (string \<times> ttype) list \<Rightarrow> store \<Rightarrow> store" where
  "upd_out a v st = st\<lparr>typeObjs := (typeObjs st)[out_p (objs st ! a) := v]\<rparr>"

section \<open>Scope\<close>

text \<open>
  The fields of the class \<^verbatim>\<open>Scope\<close>; \<open>x_\<close> stands for the underscore that begins a
  field's name in the source. A global is bound to a schema object. A local is bound to a
  type, or (after \<^verbatim>\<open>merge\<close>) to a schema object, which is then the value
  \<open>FunctionDef\<close> of its address.
\<close>

record Scope =
  x_globalScope :: "(string \<times> addr) list"
  x_scope :: "(string \<times> ttype) list"
  x_conflicts :: "string list"
  has_event :: bool
  x_inReq :: "(string \<times> ttype) list"
  x_lambda_args :: "(string \<times> addr) list"

text \<open>\<^verbatim>\<open>new Scope()\<close> and \<^verbatim>\<open>new Scope(scope)\<close>: the copy has maps and a set of its own,
  and shares the arrays of \<^verbatim>\<open>_lambda_args\<close>.\<close>

definition Scope_new :: "Scope option \<Rightarrow> Scope" where
  "Scope_new scope =
     (case scope of
        None \<Rightarrow> \<lparr>x_globalScope = [], x_scope = [], x_conflicts = [], has_event = False,
                 x_inReq = [], x_lambda_args = []\<rparr>
      | Some sc \<Rightarrow> sc)"

definition Scope_has :: "string \<Rightarrow> Scope \<Rightarrow> bool" where
  "Scope_has name sc = has_key name (x_scope sc)"

definition Scope_hasGlobal :: "string \<Rightarrow> Scope \<Rightarrow> bool" where
  "Scope_hasGlobal name sc = has_key name (x_globalScope sc)"

definition Scope_hasInReq :: "Scope \<Rightarrow> bool" where
  "Scope_hasInReq sc = (length (x_inReq sc) > 0)"

definition Scope_getSchema :: "string \<Rightarrow> Scope \<Rightarrow> addr option" where
  "Scope_getSchema name sc =
     (if Scope_hasGlobal name sc then map_of (x_globalScope sc) name else None)"

definition Scope_add :: "string \<Rightarrow> ttype \<Rightarrow> Scope \<Rightarrow> Scope" where
  "Scope_add name type sc = sc\<lparr>x_scope := AList.update name type (x_scope sc)\<rparr>"

definition Scope_addGlobal :: "string \<Rightarrow> addr \<Rightarrow> Scope \<Rightarrow> store \<Rightarrow> error + (Scope \<times> store)" where
  "Scope_addGlobal name a sc st =
     (if Scope_hasGlobal name sc then Inl (Conflict name)
      else (case clone a st of
              (c, st') \<Rightarrow> Inr (sc\<lparr>x_globalScope := AList.update name c (x_globalScope sc)\<rparr>, st')))"

definition Scope_addConflict :: "string \<Rightarrow> Scope \<Rightarrow> Scope" where
  "Scope_addConflict name sc =
     (if name \<in> set (x_conflicts sc) then sc else sc\<lparr>x_conflicts := x_conflicts sc @ [name]\<rparr>)"

definition Scope_popInReq :: "string \<Rightarrow> ttype \<Rightarrow> Scope \<Rightarrow> Scope" where
  "Scope_popInReq name type sc = sc\<lparr>x_inReq := AList.update name type (x_inReq sc)\<rparr>"

definition Scope_removeInReq :: "string \<Rightarrow> Scope \<Rightarrow> Scope" where
  "Scope_removeInReq name sc = sc\<lparr>x_inReq := AList.delete name (x_inReq sc)\<rparr>"

definition Scope_clearInReq :: "Scope \<Rightarrow> Scope" where
  "Scope_clearInReq sc = sc\<lparr>x_inReq := []\<rparr>"

definition Scope_isLambdaArg :: "string \<Rightarrow> Scope \<Rightarrow> bool" where
  "Scope_isLambdaArg arg sc = has_key arg (x_lambda_args sc)"

text \<open>\<^verbatim>\<open>this._lambda_args[arg].push(name)\<close>; without the array the read of \<^verbatim>\<open>push\<close>
  fails.\<close>

definition Scope_updateLambdaArgs :: "string \<Rightarrow> string \<Rightarrow> Scope \<Rightarrow> store \<Rightarrow> error + store" where
  "Scope_updateLambdaArgs arg name sc st =
     (case map_of (x_lambda_args sc) arg of
        None \<Rightarrow> Inl JsCrash
      | Some l \<Rightarrow> Inr (st\<lparr>nameArrs := (nameArrs st)[l := (nameArrs st ! l) @ [Some name]]\<rparr>))"

text \<open>\<^verbatim>\<open>remove\<close>: the \<^verbatim>\<open>delete\<close> on \<^verbatim>\<open>_conflicts\<close> names a property of the set object,
  not a member of the set, which stays as it is.\<close>

definition Scope_remove :: "string \<Rightarrow> Scope \<Rightarrow> Scope" where
  "Scope_remove name sc = sc\<lparr>x_scope := AList.delete name (x_scope sc)\<rparr>"

fun isTable :: "ttype \<Rightarrow> bool" where
  "isTable Table = True"
| "isTable _ = False"

fun isStream :: "ttype \<Rightarrow> bool" where
  "isStream Stream = True"
| "isStream _ = False"

text \<open>\<^verbatim>\<open>assign\<close>; the first argument is \<^verbatim>\<open>Builtin.emptyFunction\<close>.\<close>

fun Scope_assign :: "addr \<Rightarrow> (string \<times> ttype) list \<Rightarrow> Scope \<Rightarrow> store \<Rightarrow> error + (Scope \<times> store)" where
  "Scope_assign ef [] sc st = Inr (sc, st)"
| "Scope_assign ef ((name, type) # rest) sc st =
     (if isTable type \<or> isStream type then
        (case Scope_addGlobal name ef sc st of
           Inl e \<Rightarrow> Inl e
         | Inr (sc', st') \<Rightarrow> Scope_assign ef rest sc' st')
      else case type of
        FunctionDef a \<Rightarrow>
          (case Scope_addGlobal name a sc st of
             Inl e \<Rightarrow> Inl e
           | Inr (sc', st') \<Rightarrow> Scope_assign ef rest sc' st')
      | _ \<Rightarrow> Scope_assign ef rest (Scope_add name type sc) st)"

text \<open>\<^verbatim>\<open>get\<close>: the global binding if there is one, else the local one, else
  \<^verbatim>\<open>undefined\<close>.\<close>

definition Scope_get :: "string \<Rightarrow> Scope \<Rightarrow> error + ttype option" where
  "Scope_get name sc =
     (if name \<in> set (x_conflicts sc) then Inl (FieldConflict name)
      else Inr (case map_of (x_globalScope sc) name of
                  Some a \<Rightarrow> Some (FunctionDef a)
                | None \<Rightarrow> map_of (x_scope sc) name))"

text \<open>One of the two loops of \<^verbatim>\<open>merge\<close>: \<^verbatim>\<open>this.add(name, scope.get(name))\<close> for each
  of the names. A name of either map is bound, so \<^verbatim>\<open>get\<close> finds a value for it.\<close>

fun Scope_mergeNames :: "string list \<Rightarrow> Scope \<Rightarrow> Scope \<Rightarrow> error + Scope" where
  "Scope_mergeNames [] other sc = Inr sc"
| "Scope_mergeNames (name # rest) other sc =
     (case Scope_get name other of
        Inl e \<Rightarrow> Inl e
      | Inr None \<Rightarrow> Scope_mergeNames rest other sc
      | Inr (Some v) \<Rightarrow> Scope_mergeNames rest other (Scope_add name v sc))"

definition Scope_merge :: "Scope \<Rightarrow> Scope \<Rightarrow> error + Scope" where
  "Scope_merge other sc =
     (case Scope_mergeNames (map fst (x_globalScope other)) other sc of
        Inl e \<Rightarrow> Inl e
      | Inr sc1 \<Rightarrow>
          (case Scope_mergeNames (map fst (x_scope other)) other sc1 of
             Inl e \<Rightarrow> Inl e
           | Inr sc2 \<Rightarrow> Inr (sc2\<lparr>x_inReq := assign_obj (x_inReq sc2) (x_inReq other)\<rparr>)))"

definition Scope_clean :: "(string \<times> ttype) list option \<Rightarrow> Scope \<Rightarrow> Scope" where
  "Scope_clean args_opt sc =
     sc\<lparr>x_scope := [], x_conflicts := [], has_event := False, x_inReq := [],
        x_lambda_args := [],
        x_globalScope :=
          (case args_opt of
             None \<Rightarrow> x_globalScope sc
           | Some as \<Rightarrow> fold AList.delete (map fst as) (x_globalScope sc))\<rparr>"

definition Scope_prefix :: "string \<Rightarrow> Scope \<Rightarrow> Scope" where
  "Scope_prefix pre sc =
     sc\<lparr>x_scope := fold (\<lambda>(name, t). AList.update (pre @ ''.'' @ name) t) (x_scope sc) []\<rparr>"

text \<open>\<^verbatim>\<open>initLambdaArgs\<close>: the arguments become locals (or globals, by \<^verbatim>\<open>assign\<close>), and
  each gets a new empty array of call-site names.\<close>

fun initLambdaArrays :: "string list \<Rightarrow> Scope \<Rightarrow> store \<Rightarrow> Scope \<times> store" where
  "initLambdaArrays [] sc st = (sc, st)"
| "initLambdaArrays (name # rest) sc st =
     initLambdaArrays rest
       (sc\<lparr>x_lambda_args := AList.update name (length (nameArrs st)) (x_lambda_args sc)\<rparr>)
       (st\<lparr>nameArrs := nameArrs st @ [[]]\<rparr>)"

definition Scope_initLambdaArgs ::
  "addr \<Rightarrow> (string \<times> ttype) list \<Rightarrow> Scope \<Rightarrow> store \<Rightarrow> error + (Scope \<times> store)" where
  "Scope_initLambdaArgs ef as sc st =
     (case Scope_assign ef as sc st of
        Inl e \<Rightarrow> Inl e
      | Inr (sc', st') \<Rightarrow> Inr (initLambdaArrays (map fst as) sc' st'))"

section \<open>Values\<close>

text \<open>
  The values of the abstract syntax tree as far as the checker tells them apart: a
  reference to a variable, an event, an entity (whose type tag the checker may rewrite),
  the placeholder \<^verbatim>\<open>Undefined(remote)\<close>, and every other value with its type.
\<close>

datatype tvalue =
    Value_VarRef string
  | Value_Event "string option" ttype
  | Value_Entity string
  | Value_Undefined bool
  | Value_Literal ttype

text \<open>
  Modelled from the spec: \<^verbatim>\<open>getType\<close> is a method of the value classes of
  \<^verbatim>\<open>lib/ast.js\<close>, which is not among the sources. A literal has its declared type (an
  event carries the type it reads as); the placeholder, which stands for a value still
  to be supplied, has type \<open>Any\<close>.
\<close>

fun getType :: "tvalue \<Rightarrow> ttype" where
  "getType (Value_VarRef name) = Any"
| "getType (Value_Event name t) = t"
| "getType (Value_Entity k) = Entity k"
| "getType (Value_Undefined remote) = Any"
| "getType (Value_Literal t) = t"

text \<open>\<^verbatim>\<open>s.startsWith(p)\<close>.\<close>

definition startsWith :: "string \<Rightarrow> string \<Rightarrow> bool" where
  "startsWith s p = (take (length p) s = p)"

fun typeForValue :: "tvalue \<Rightarrow> Scope \<Rightarrow> error + ttype" where
  "typeForValue (Value_VarRef name) scope =
     (if startsWith name ''$context.location'' then Inr Location
      else case Scope_get name scope of
             Inl e \<Rightarrow> Inl e
           | Inr None \<Rightarrow> Inl (VariableNotInScope name)
           | Inr (Some type) \<Rightarrow> Inr type)"
| "typeForValue (Value_Event name t) scope =
     (if name \<noteq> Some ''program_id'' \<and> \<not> has_event scope then Inl EventNotAllowed
      else Inr (getType (Value_Event name t)))"
| "typeForValue v scope = Inr (getType v)"

section \<open>Rewriting a schema\<close>

text \<open>
  The helpers below are given on the contents of a schema; where each array or map of
  the result lives in the store is said further down, with the checker of tables and
  streams.
\<close>

definition numInput :: "schema \<Rightarrow> nat" where
  "numInput s = length (inReq s) + length (inOpt s)"

text \<open>\<^verbatim>\<open>schema.index[p] >= num_input\<close>, false of \<^verbatim>\<open>undefined\<close>.\<close>

fun indexAtLeast :: "nat option \<Rightarrow> nat \<Rightarrow> bool" where
  "indexAtLeast None n = False"
| "indexAtLeast (Some i) n = (n \<le> i)"

definition cleanOutput :: "schema \<Rightarrow> Scope \<Rightarrow> schema \<times> Scope" where
  "cleanOutput s scope =
     (let num_input = numInput s in
      (s\<lparr>args := take num_input (args s),
         types := take num_input (types s),
         index := filter (\<lambda>(p, i). \<not> indexAtLeast i num_input) (index s),
         out := []\<rparr>,
       fold Scope_remove (map fst (out s)) scope))"

definition addOutput :: "schema \<Rightarrow> string \<Rightarrow> ttype \<Rightarrow> Scope \<Rightarrow> schema \<times> Scope" where
  "addOutput s name type scope =
     (s\<lparr>args := args s @ [Some name],
        types := types s @ [Some type],
        index := AList.update name (Some (length (index s))) (index s),
        out := AList.update name type (out s)\<rparr>,
      Scope_add name type scope)"

text \<open>\<^verbatim>\<open>a.splice(n, 0, x)\<close>: \<open>x\<close> is put before position \<open>n\<close>, or at the end of a shorter
  array.\<close>

definition splice_in :: "nat \<Rightarrow> 'a \<Rightarrow> 'a list \<Rightarrow> 'a list" where
  "splice_in n x xs = take n xs @ [x] @ drop n xs"

definition addInput :: "schema \<Rightarrow> string \<Rightarrow> ttype \<Rightarrow> bool \<Rightarrow> schema" where
  "addInput s name type required =
     (let num_input = numInput s;
          index1 = AList.update name (Some num_input) (index s);
          index2 = map (\<lambda>(p, i). if has_key p (out s) then (p, map_option Suc i) else (p, i)) index1
      in s\<lparr>args := splice_in num_input (Some name) (args s),
            types := splice_in num_input (Some type) (types s),
            index := index2,
            inReq := (if required then AList.update name type (inReq s) else inReq s),
            inOpt := (if required then inOpt s else AList.update name type (inOpt s))\<rparr>)"

definition pushInReq :: "schema \<Rightarrow> Scope \<Rightarrow> schema \<times> Scope" where
  "pushInReq s scope =
     (if Scope_hasInReq scope
      then (fold (\<lambda>(name, type) s'. addInput s' name type True) (x_inReq scope) s,
            Scope_clearInReq scope)
      else (s, scope))"

text \<open>\<^verbatim>\<open>a[i] = x\<close>: beyond its end the array grows, with holes up to \<open>i\<close>; an index that
  is no number leaves the elements as they are.\<close>

fun js_set :: "'a option list \<Rightarrow> nat option \<Rightarrow> 'a \<Rightarrow> 'a option list" where
  "js_set xs None x = xs"
| "js_set xs (Some i) x =
     (if i < length xs then xs[i := Some x]
      else xs @ replicate (i - length xs) None @ [Some x])"

text \<open>\<^verbatim>\<open>obj[name]\<close> for a map of indices: \<^verbatim>\<open>undefined\<close> for a name that is not there.\<close>

definition index_of :: "(string \<times> nat option) list \<Rightarrow> string \<Rightarrow> nat option" where
  "index_of idx name = (case map_of idx name of Some i \<Rightarrow> i | None \<Rightarrow> None)"

text \<open>The body of the inner loop of \<^verbatim>\<open>updateLambdaArgs\<close>, for one call-site name
  \<open>old_name\<close> of the lambda argument \<open>new_name\<close>. The argument is one of the
  declaration's, whose types \<open>tys\<close> are.\<close>

definition renameArg :: "(string \<times> ttype) list \<Rightarrow> string \<Rightarrow> string \<Rightarrow> schema \<Rightarrow> schema" where
  "renameArg tys new_name old_name s =
     (if new_name = old_name then s
      else
        s\<lparr>args := js_set (args s) (index_of (index s) old_name) new_name,
          index := AList.delete old_name
                     (AList.update new_name (index_of (index s) old_name) (index s)),
          inReq := AList.delete old_name
                     (case map_of tys new_name of
                        Some t \<Rightarrow> AList.update new_name t (inReq s)
                      | None \<Rightarrow> inReq s),
          inOpt := AList.delete old_name (inOpt s)\<rparr>)"

text \<open>\<^verbatim>\<open>updateLambdaArgs(schema, scope, types)\<close>; \<open>lam\<close> is \<^verbatim>\<open>scope._lambda_args\<close> with
  the contents of its arrays.\<close>

definition updateLambdaArgs ::
  "schema \<Rightarrow> (string \<times> string option list) list \<Rightarrow> (string \<times> ttype) list \<Rightarrow> schema" where
  "updateLambdaArgs s lam tys =
     fold (\<lambda>(new_name, olds) s1.
             fold (\<lambda>old_name s2. renameArg tys new_name old_name s2)
                  (List.map_filter id olds) s1)
          lam s"

subsection \<open>Aggregation\<close>

text \<open>\<^verbatim>\<open>resolveTypeVars\<close>. Only the variable named by the string \<^verbatim>\<open>'string'\<close> is looked
  up (the test is \<^verbatim>\<open>type === 'string'\<close>). A lookup that finds nothing, or a binding that
  leads back to the variable, ends in an exception of the runtime.\<close>

fun mentionsStringVar :: "ttype \<Rightarrow> bool" where
  "mentionsStringVar (TVar v) = (v = ''string'')"
| "mentionsStringVar (Array e) = mentionsStringVar e"
| "mentionsStringVar (Tuple es) = list_ex mentionsStringVar es"
| "mentionsStringVar _ = False"

fun substTypeVars :: "ttype \<Rightarrow> typeScope \<Rightarrow> ttype \<Rightarrow> ttype" where
  "substTypeVars r ts (TVar v) = (if v = ''string'' then r else TVar v)"
| "substTypeVars r ts (Array e) = Array (substTypeVars r ts e)"
| "substTypeVars r ts (Tuple es) = Tuple (map (substTypeVars r ts) es)"
| "substTypeVars r ts (Measure u) =
     (case unit ts of
        Some u' \<Rightarrow> if u' \<noteq> [] then Measure u' else Measure u
      | None \<Rightarrow> Measure u)"
| "substTypeVars r ts t = t"

definition resolveTypeVars :: "ttype \<Rightarrow> typeScope \<Rightarrow> error + ttype" where
  "resolveTypeVars type ts =
     (if mentionsStringVar type then
        (case map_of (tvars ts) ''string'' of
           None \<Rightarrow> Inl JsCrash
         | Some b \<Rightarrow>
             if mentionsStringVar b then Inl JsCrash
             else Inr (substTypeVars (substTypeVars b ts b) ts type))
      else Inr (substTypeVars type ts type))"

text \<open>An overload of an aggregation: the type of the field and the type of the result.
  The table \<^verbatim>\<open>Builtin.Aggregations\<close> is not among the exports of \<^verbatim>\<open>lib/builtin.js\<close> as
  given, and is an argument (\<open>ags\<close>) of what follows.\<close>

type_synonym aggOverload = "ttype \<times> ttype"

fun aggregationOverloads :: "ttype \<Rightarrow> aggOverload list \<Rightarrow> (error + (ttype list \<times> ttype)) option" where
  "aggregationOverloads fieldType [] = None"
| "aggregationOverloads fieldType ((o0, o1) # rest) =
     (case isAssignable fieldType o0 emptyTypeScope True of
        (False, _) \<Rightarrow> aggregationOverloads fieldType rest
      | (True, ts) \<Rightarrow>
          Some (case resolveTypeVars o0 ts of
                  Inl e \<Rightarrow> Inl e
                | Inr r0 \<Rightarrow>
                    (case resolveTypeVars o1 ts of
                       Inl e \<Rightarrow> Inl e
                     | Inr r1 \<Rightarrow> Inr ([r0, r1], r1))))"

definition resolveAggregationOverload ::
  "(string \<times> aggOverload list) list \<Rightarrow> string \<Rightarrow> string \<Rightarrow> schema \<Rightarrow> error + (ttype list \<times> ttype)" where
  "resolveAggregationOverload ags operator field s =
     (case map_of (out s) field of
        None \<Rightarrow> Inl (InvalidAggregationField field)
      | Some fieldType \<Rightarrow>
          (case map_of ags operator of
             None \<Rightarrow> Inl (InvalidAggregation operator)
           | Some overloads \<Rightarrow>
               (case aggregationOverloads fieldType overloads of
                  None \<Rightarrow> Inl (InvalidFieldType fieldType operator)
                | Some r \<Rightarrow> r)))"

text \<open>\<^verbatim>\<open>ast.alias ? ast.alias : dflt\<close>: an alias that is missing or the empty string
  gives the default.\<close>

fun aliasOr :: "string option \<Rightarrow> string \<Rightarrow> string" where
  "aliasOr None dflt = dflt"
| "aliasOr (Some a) dflt = (if a = [] then dflt else a)"

text \<open>\<^verbatim>\<open>typeCheckAggregation\<close>, on the node's \<^verbatim>\<open>field\<close>, \<^verbatim>\<open>operator\<close>, \<^verbatim>\<open>alias\<close> and the
  contents of its schema; the result is the node's \<^verbatim>\<open>overload\<close>, the schema and the scope.\<close>

definition typeCheckAggregation ::
  "(string \<times> aggOverload list) list \<Rightarrow> string \<Rightarrow> string \<Rightarrow> string option \<Rightarrow> schema \<Rightarrow> Scope
     \<Rightarrow> error + (ttype list \<times> schema \<times> Scope)" where
  "typeCheckAggregation ags field operator alias s scope =
     (if field = ''*'' then
        (if operator \<noteq> ''count'' then Inl (StarNotValid operator)
         else (case cleanOutput s scope of
                 (s1, scope1) \<Rightarrow>
                   (case addOutput s1 (aliasOr alias ''count'') Number scope1 of
                      (s2, scope2) \<Rightarrow> Inr ([Any, Number], s2, scope2))))
      else
        (case resolveAggregationOverload ags operator field s of
           Inl e \<Rightarrow> Inl e
         | Inr (ov, type) \<Rightarrow>
             (case cleanOutput s scope of
                (s1, scope1) \<Rightarrow>
                  (case addOutput s1 (aliasOr alias operator) type scope1 of
                     (s2, scope2) \<Rightarrow> Inr (ov, s2, scope2)))))"

subsection \<open>Projection\<close>

text \<open>\<^verbatim>\<open>schema.args.indexOf(arg) === -1\<close>.\<close>

definition notInArgs :: "string \<Rightarrow> string option list \<Rightarrow> bool" where
  "notInArgs arg as = (Some arg \<notin> set as)"

text \<open>\<^verbatim>\<open>schema.types[schema.index[arg]]\<close>.\<close>

definition typeAt :: "schema \<Rightarrow> string \<Rightarrow> ttype option" where
  "typeAt s arg =
     (case index_of (index s) arg of
        None \<Rightarrow> None
      | Some i \<Rightarrow> if i < length (types s) then types s ! i else None)"

text \<open>The last loop of \<^verbatim>\<open>resolveProjection\<close>, over the keys \<^verbatim>\<open>out\<close> had before it.\<close>

fun dropOutputs :: "string list \<Rightarrow> string option list \<Rightarrow> (string \<times> ttype) list \<Rightarrow> Scope
     \<Rightarrow> (string \<times> ttype) list \<times> Scope" where
  "dropOutputs [] as outs scope = (outs, scope)"
| "dropOutputs (arg # rest) as outs scope =
     (if notInArgs arg as
      then dropOutputs rest as (AList.delete arg outs) (Scope_remove arg scope)
      else dropOutputs rest as outs scope)"

text \<open>The \<^verbatim>\<open>reduce\<close> of \<^verbatim>\<open>resolveProjection\<close>: \<^verbatim>\<open>res[arg] = i\<close> for each position of the
  projection list, from the empty map.\<close>

definition projectionIndex :: "string list \<Rightarrow> (string \<times> nat option) list" where
  "projectionIndex projArgs =
     fold (\<lambda>(arg, i). AList.update arg (Some i)) (zip projArgs [0 ..< length projArgs]) []"

definition resolveProjection :: "string list \<Rightarrow> schema \<Rightarrow> Scope \<Rightarrow> error + (schema \<times> Scope)" where
  "resolveProjection projArgs s scope =
     (case find (\<lambda>arg. notInArgs arg (args s)) projArgs of
        Some arg \<Rightarrow> Inl (InvalidFieldName arg)
      | None \<Rightarrow>
          (let args1 = map Some projArgs;
               types1 = map (typeAt s) projArgs;
               index1 = projectionIndex projArgs
           in case dropOutputs (map fst (out s)) args1 (out s) scope of
                (out1, scope1) \<Rightarrow>
                  Inr (s\<lparr>args := args1, types := types1, index := index1, out := out1\<rparr>,
                       scope1)))"

subsection \<open>Join\<close>

text \<open>One of the two loops of \<^verbatim>\<open>resolveJoin\<close> over the inputs of the right side;
  \<open>in_params\<close> are the names of the inputs of the left side, \<open>req\<close> says which of the
  two maps a new input goes to. The state is the pair \<^verbatim>\<open>(inReq, inOpt)\<close> of the join.\<close>

fun joinInputs :: "string list \<Rightarrow> bool \<Rightarrow> (string \<times> ttype) list
     \<Rightarrow> (string \<times> ttype) list \<times> (string \<times> ttype) list
     \<Rightarrow> (string \<times> ttype) list \<times> (string \<times> ttype) list" where
  "joinInputs in_params req [] (rq, ot) = (rq, ot)"
| "joinInputs in_params req ((p, t) # rest) (rq, ot) =
     (if p \<in> set in_params
      then joinInputs in_params req rest (AList.delete p rq, AList.delete p ot)
      else if req then joinInputs in_params req rest (AList.update p t rq, ot)
      else joinInputs in_params req rest (rq, AList.update p t ot))"

text \<open>\<^verbatim>\<open>resolveJoin\<close>: the contents of the join's schema, from those of the schemas of
  its two sides. \<^verbatim>\<open>reduce\<close> passes over the holes of an array.\<close>

definition resolveJoin :: "schema \<Rightarrow> schema \<Rightarrow> schema" where
  "resolveJoin lhs rhs =
     (let in_params = map fst (assign_obj (assign_obj [] (inReq lhs)) (inOpt lhs));
          (rq, ot) = joinInputs in_params False (inOpt rhs)
                       (joinInputs in_params True (inReq rhs) (inReq lhs, inOpt lhs))
      in lhs\<lparr>args := args lhs @ args rhs,
              types := types lhs @ types rhs,
              index := fold (\<lambda>arg res. AList.update arg (Some (length res)) res)
                            (List.map_filter id (args rhs)) (index lhs),
              inReq := rq,
              inOpt := ot,
              out := assign_obj (out lhs) (out rhs)\<rparr>)"



section \<open>Example schemas\<close>

text \<open>Signatures in the shape the schema oracle returns them: a web search and an image
  search that both require \<^verbatim>\<open>query\<close>, and the current weather, which has no input.\<close>

definition searchSchema :: schema where
  "searchSchema =
     \<lparr>args = [Some ''query'', Some ''title''],
      types = [Some String, Some String],
      index = [(''query'', Some 0), (''title'', Some 1)],
      inReq = [(''query'', String)],
      inOpt = [],
      out = [(''title'', String)]\<rparr>"


definition weatherSchema :: schema where
  "weatherSchema =
     \<lparr>args = [Some ''temperature''],
      types = [Some (Measure ''C'')],
      index = [(''temperature'', Some 0)],
      inReq = [],
      inOpt = [],
      out = [(''temperature'', Measure ''C'')]\<rparr>"

section \<open>The abstract syntax tree\<close>

text \<open>
  The nodes the checker visits, with the fields it reads and writes. A field
  \<^verbatim>\<open>schema\<close> is a reference to a schema object, or empty before the node is checked.
\<close>

datatype selector =
    Selector_Builtin
  | Selector_Device string "string option" "string option"

fun isBuiltin :: "selector \<Rightarrow> bool" where
  "isBuiltin Selector_Builtin = True"
| "isBuiltin (Selector_Device kind ident prin) = False"

text \<open>Boolean expressions. An atom has its name, operator and value, and the
  overload the checker records on it; an external sub-query has its selector, channel,
  input parameters, filter, schema and the effective selector the checker records.\<close>

datatype filter =
    BTrue
  | BFalse
  | BAnd "filter list"
  | BOr "filter list"
  | BNot filter
  | BAtom string string tvalue "overload option"
  | BExternal selector string "(string \<times> tvalue) list" filter "addr option" "selector option"

text \<open>The fields of a node that \<^verbatim>\<open>typeCheckAggregation\<close> reads and writes.\<close>

record aggregation =
  ag_field :: string
  ag_operator :: string
  ag_alias :: "string option"
  ag_overload :: "ttype list option"

record invocation =
  inv_selector :: selector
  inv_channel :: string
  inv_in_params :: "(string \<times> tvalue) list"
  inv_filter :: "filter option"
  inv_schema :: "addr option"
  inv_aggregation :: "aggregation option"
  inv_effectiveSelector :: "selector option"

record varref =
  vr_name :: string
  vr_in_params :: "(string \<times> tvalue) list"
  vr_schema :: "addr option"

datatype scalarExpr =
    SE_Boolean filter
  | SE_Primary tvalue
  | SE_Derived string "scalarExpr list"

text \<open>Tables and streams; the last reference of each node is its \<^verbatim>\<open>schema\<close>.\<close>

datatype table =
    TVarRef varref
  | TInvocation invocation "addr option"
  | TFilter table filter "addr option"
  | TProjection table "string list" "addr option"
  | TAlias table string "addr option"
  | TAggregation table aggregation "addr option"
  | TArgMinMax table string string tvalue tvalue "addr option"
  | TJoin table table "(string \<times> tvalue) list" "addr option"
  | TWindow tvalue tvalue stream "addr option"
  | TTimeSeries tvalue tvalue stream "addr option"
  | TSequence tvalue tvalue table "addr option"
  | THistory tvalue tvalue table "addr option"
  | TCompute table scalarExpr "string option" "addr option"
and stream =
    SVarRef varref
  | STimer "addr option"
  | SAtTimer "addr option"
  | SMonitor table "string list option" "addr option"
  | SEdgeNew stream "addr option"
  | SEdgeFilter stream filter "addr option"
  | SFilter stream filter "addr option"
  | SAlias stream string "addr option"
  | SProjection stream "string list" "addr option"
  | SJoin stream table "(string \<times> tvalue) list" "addr option"

fun table_schema :: "table \<Rightarrow> addr option" where
  "table_schema (TVarRef v) = vr_schema v"
| "table_schema (TInvocation i s) = s"
| "table_schema (TFilter t f s) = s"
| "table_schema (TProjection t as s) = s"
| "table_schema (TAlias t n s) = s"
| "table_schema (TAggregation t ag s) = s"
| "table_schema (TArgMinMax t f operator b l s) = s"
| "table_schema (TJoin l r ps s) = s"
| "table_schema (TWindow b d str s) = s"
| "table_schema (TTimeSeries b d str s) = s"
| "table_schema (TSequence b d t s) = s"
| "table_schema (THistory b d t s) = s"
| "table_schema (TCompute t e al s) = s"

fun stream_schema :: "stream \<Rightarrow> addr option" where
  "stream_schema (SVarRef v) = vr_schema v"
| "stream_schema (STimer s) = s"
| "stream_schema (SAtTimer s) = s"
| "stream_schema (SMonitor t as s) = s"
| "stream_schema (SEdgeNew str s) = s"
| "stream_schema (SEdgeFilter str f s) = s"
| "stream_schema (SFilter str f s) = s"
| "stream_schema (SAlias str n s) = s"
| "stream_schema (SProjection str as s) = s"
| "stream_schema (SJoin str t ps s) = s"

text \<open>A rule has a stream; a command has a table, or none. The actions are invocations.\<close>

datatype statement =
    Rule stream "invocation list"
  | Command "table option" "invocation list"

datatype declValue =
    Decl_Stream stream
  | Decl_Table table
  | Decl_Action invocation
  | Decl_Other string

record Declaration =
  decl_name :: string
  decl_args :: "(string \<times> ttype) list"
  decl_value :: declValue

record program =
  prog_classes :: "(string \<times> string) list"
  prog_declarations :: "Declaration list"
  prog_rules :: "statement list"
  prog_principal :: "tvalue option"

section \<open>The collaborators of the checker\<close>

text \<open>
  What the checker is given: the schema oracle (by kind, channel and primitive type)
  and the oracle of memory tables, both answering with a schema object of the store or
  not at all; the built-in schema \<^verbatim>\<open>Builtin.emptyFunction\<close>, which \<^verbatim>\<open>lib/builtin.js\<close> as
  given does not export; the entries \<^verbatim>\<open>notify\<close>, \<^verbatim>\<open>return\<close> and \<^verbatim>\<open>save\<close> of
  \<^verbatim>\<open>Builtin.Actions\<close>, each a schema object or none (\<^verbatim>\<open>lib/builtin.js\<close> as given has
  \<^verbatim>\<open>null\<close> for the first two and no third); and the tables \<^verbatim>\<open>Aggregations\<close> and
  \<^verbatim>\<open>ArgMinMax\<close>, which it does not export.
\<close>

record env =
  schemaOracle :: "string \<Rightarrow> string \<Rightarrow> string \<Rightarrow> addr option"
  memoryOracle :: "string \<Rightarrow> addr option"
  emptyFunction :: addr
  action_notify :: "addr option"
  action_return :: "addr option"
  action_save :: "addr option"
  Aggregations :: "(string \<times> aggOverload list) list"
  ArgMinMax :: "(string \<times> ttype list) list"

text \<open>
  Modelled from the spec: \<^verbatim>\<open>Utils.getSchemaForSelector\<close> and \<^verbatim>\<open>Utils.getMemorySchema\<close>
  are functions of \<^verbatim>\<open>lib/utils.js\<close>, which is not among the sources. The first asks
  the oracle for the kind a class of the program extends, when the selector's kind is
  such a class (section 4.5); the second asks the memory oracle, whose \<^verbatim>\<open>null\<close> is
  \<open>None\<close>. An oracle that does not answer is the error \<open>UnknownFunction\<close>.
\<close>

definition getSchemaForSelector ::
  "env \<Rightarrow> (string \<times> string) list \<Rightarrow> string \<Rightarrow> string \<Rightarrow> string \<Rightarrow> addr option" where
  "getSchemaForSelector env classes kind channel primType =
     schemaOracle env (case map_of classes kind of Some ext \<Rightarrow> ext | None \<Rightarrow> kind)
       channel primType"

definition getMemorySchema :: "env \<Rightarrow> string \<Rightarrow> addr option" where
  "getMemorySchema env name = memoryOracle env name"

section \<open>Resolving the schema of a primitive\<close>

text \<open>What \<^verbatim>\<open>ensureSchema\<close> reads of a primitive besides its schema: the name of a
  reference to a variable, or the selector and channel of an invocation or external
  sub-query. The result is the schema the primitive has afterwards.\<close>

datatype primRef =
    Prim_VarRef string
  | Prim_Invocation selector string

text \<open>A built-in action whose entry in \<^verbatim>\<open>Builtin.Actions\<close> is no object leaves the
  primitive without a schema; \<^verbatim>\<open>typeCheckInputArgs\<close>, which \<^verbatim>\<open>typeCheckOutput\<close> calls
  next, then fails at its first read of \<^verbatim>\<open>schema.inReq\<close>. That failure is the result
  here.\<close>

fun builtinAction :: "addr option \<Rightarrow> error + addr" where
  "builtinAction None = Inl JsCrash"
| "builtinAction (Some a) = Inr a"

fun ensureSchema ::
  "env \<Rightarrow> (string \<times> string) list \<Rightarrow> primRef \<Rightarrow> addr option \<Rightarrow> string \<Rightarrow> error + addr" where
  "ensureSchema env classes prim (Some a) primType = Inr a"
| "ensureSchema env classes (Prim_VarRef name) None primType =
     (case getMemorySchema env name of
        None \<Rightarrow> Inl (UnknownMemoryTable name)
      | Some a \<Rightarrow> Inr a)"
| "ensureSchema env classes (Prim_Invocation sel channel) None primType =
     (if isBuiltin sel \<and> primType = ''action'' then
        (if channel = ''notify'' then builtinAction (action_notify env)
         else if channel = ''return'' then builtinAction (action_return env)
         else if channel = ''save'' then builtinAction (action_save env)
         else Inl (InvalidBuiltinAction channel))
      else case sel of
        Selector_Builtin \<Rightarrow> Inl (InvalidBuiltin primType channel)
      | Selector_Device kind ident prin \<Rightarrow>
          (case getSchemaForSelector env classes kind channel primType of
             None \<Rightarrow> Inl (UnknownFunction kind channel)
           | Some a \<Rightarrow> Inr a))"

section \<open>Input parameters\<close>

text \<open>The rewriting of schemas in place, on the store.\<close>

definition pushInReq_st :: "addr \<Rightarrow> Scope \<Rightarrow> store \<Rightarrow> Scope \<times> store" where
  "pushInReq_st a scope st =
     (if Scope_hasInReq scope then
        (case pushInReq (load st a) scope of
           (s', scope') \<Rightarrow>
             (scope', upd_inReq a (inReq s') (upd_index a (index s')
                        (upd_types a (types s') (upd_args a (args s') st)))))
      else (scope, st))"

text \<open>\<^verbatim>\<open>__effectiveSelector\<close>: the kind a class of the program extends stands for the
  class.\<close>

fun effectiveSelector :: "(string \<times> string) list \<Rightarrow> selector \<Rightarrow> selector" where
  "effectiveSelector classes Selector_Builtin = Selector_Builtin"
| "effectiveSelector classes (Selector_Device kind ident prin) =
     (case map_of classes kind of
        Some ext \<Rightarrow> Selector_Device ext ident prin
      | None \<Rightarrow> Selector_Device kind ident prin)"

text \<open>An entity \<^verbatim>\<open>tt:username\<close> given for a phone number or an e-mail address is
  retagged \<^verbatim>\<open>tt:contact_name\<close>.\<close>

definition retagEntity :: "tvalue \<Rightarrow> ttype \<Rightarrow> tvalue" where
  "retagEntity v inParamType =
     (if v = Value_Entity ''tt:username'' \<and>
         (inParamType = Entity ''tt:phone_number'' \<or> inParamType = Entity ''tt:email_address'')
      then Value_Entity ''tt:contact_name'' else v)"

text \<open>\<^verbatim>\<open>a || b\<close> on two lookups.\<close>

definition lookup2 :: "('k \<times> 'v) list \<Rightarrow> ('k \<times> 'v) list \<Rightarrow> 'k \<Rightarrow> 'v option" where
  "lookup2 m1 m2 k = (case map_of m1 k of Some v \<Rightarrow> Some v | None \<Rightarrow> map_of m2 k)"

text \<open>\<^verbatim>\<open>if (value.isVarRef && scope.isLambdaArg(value.name)) scope.updateLambdaArgs(value.name, name)\<close>.\<close>

fun recordLambdaArg :: "tvalue \<Rightarrow> string \<Rightarrow> Scope \<Rightarrow> store \<Rightarrow> error + store" where
  "recordLambdaArg (Value_VarRef v) name scope st =
     (if Scope_isLambdaArg v scope then Scope_updateLambdaArgs v name scope st else Inr st)"
| "recordLambdaArg _ name scope st = Inr st"

text \<open>The first loop of \<^verbatim>\<open>typeCheckInputArgs\<close>, over \<^verbatim>\<open>ast.in_params\<close>; \<open>present\<close> is
  \<^verbatim>\<open>presentParams\<close>. The result has the parameters as the loop leaves them.\<close>

fun checkInParams ::
  "addr \<Rightarrow> (string \<times> tvalue) list \<Rightarrow> string list \<Rightarrow> Scope \<Rightarrow> store
     \<Rightarrow> error + ((string \<times> tvalue) list \<times> string list \<times> store)" where
  "checkInParams a [] present scope st = Inr ([], present, st)"
| "checkInParams a ((name, v) # rest) present scope st =
     (case lookup2 (inReq (load st a)) (inOpt (load st a)) name of
        None \<Rightarrow> Inl (InvalidInputParameter name)
      | Some inParamType \<Rightarrow>
          (case typeForValue (retagEntity v inParamType) scope of
             Inl e \<Rightarrow> Inl e
           | Inr t \<Rightarrow>
               if \<not> fst (isAssignable t inParamType emptyTypeScope True) then Inl (InvalidType name)
               else if name \<in> set present then Inl (DuplicateInputParam name)
               else (case recordLambdaArg (retagEntity v inParamType) name scope st of
                       Inl e \<Rightarrow> Inl e
                     | Inr st1 \<Rightarrow>
                         (case checkInParams a rest (present @ [name]) scope st1 of
                            Inl e \<Rightarrow> Inl e
                          | Inr (rest', present', st2) \<Rightarrow>
                              Inr ((name, retagEntity v inParamType) # rest', present', st2)))))"

text \<open>\<^verbatim>\<open>typeCheckInputArgs\<close>, of a primitive with the schema at \<open>a\<close> and the input
  parameters \<open>in_params\<close>. (The effective selector, which the function records on an
  invocation, is set where the function is called.)\<close>

definition typeCheckInputArgs ::
  "addr \<Rightarrow> (string \<times> tvalue) list \<Rightarrow> Scope \<Rightarrow> store \<Rightarrow> bool
     \<Rightarrow> error + ((string \<times> tvalue) list \<times> Scope \<times> store)" where
  "typeCheckInputArgs a in_params scope st isDeclaration =
     (case (if isDeclaration then pushInReq_st a scope st else (scope, st)) of
        (scope1, st1) \<Rightarrow>
          (case checkInParams a in_params [] scope1 st1 of
             Inl e \<Rightarrow> Inl e
           | Inr (in_params', present, st2) \<Rightarrow>
               Inr (in_params',
                    fold (\<lambda>(name, t) sc. if name \<in> set present then sc else Scope_popInReq name t sc)
                         (inReq (load st2 a)) scope1,
                    st2)))"

section \<open>Filters and scalar expressions\<close>

text \<open>\<^verbatim>\<open>schema.inReq[name] || schema.inOpt[name] || schema.out[name]\<close>, of a schema that
  may be \<^verbatim>\<open>null\<close>.\<close>

definition schemaParam :: "store \<Rightarrow> addr option \<Rightarrow> string \<Rightarrow> ttype option" where
  "schemaParam st schema name =
     (case schema of
        None \<Rightarrow> None
      | Some a \<Rightarrow>
          (case lookup2 (inReq (load st a)) (inOpt (load st a)) name of
             Some t \<Rightarrow> Some t
           | None \<Rightarrow> map_of (out (load st a)) name))"

text \<open>
  \<^verbatim>\<open>typeCheckFilter\<close>. The operands of a conjunction or disjunction are checked from
  left to right (the source starts the check of each before it awaits any). The result
  has the expression as the checker leaves it.
\<close>

fun typeCheckFilter ::
  "env \<Rightarrow> (string \<times> string) list \<Rightarrow> filter \<Rightarrow> addr option \<Rightarrow> Scope \<Rightarrow> store
     \<Rightarrow> error + (filter \<times> Scope \<times> store)"
and typeCheckFilters ::
  "env \<Rightarrow> (string \<times> string) list \<Rightarrow> filter list \<Rightarrow> addr option \<Rightarrow> Scope \<Rightarrow> store
     \<Rightarrow> error + (filter list \<times> Scope \<times> store)"
where
  "typeCheckFilter env classes BTrue schema scope st = Inr (BTrue, scope, st)"
| "typeCheckFilter env classes BFalse schema scope st = Inr (BFalse, scope, st)"
| "typeCheckFilter env classes (BAnd operands) schema scope st =
     (case typeCheckFilters env classes operands schema scope st of
        Inl e \<Rightarrow> Inl e
      | Inr (operands', scope', st') \<Rightarrow> Inr (BAnd operands', scope', st'))"
| "typeCheckFilter env classes (BOr operands) schema scope st =
     (case typeCheckFilters env classes operands schema scope st of
        Inl e \<Rightarrow> Inl e
      | Inr (operands', scope', st') \<Rightarrow> Inr (BOr operands', scope', st'))"
| "typeCheckFilter env classes (BNot expr) schema scope st =
     (case typeCheckFilter env classes expr schema scope st of
        Inl e \<Rightarrow> Inl e
      | Inr (expr', scope', st') \<Rightarrow> Inr (BNot expr', scope', st'))"
| "typeCheckFilter env classes (BAtom name operator v ov) schema scope st =
     (case (case schemaParam st schema name of
              Some t \<Rightarrow> Inr (Some t)
            | None \<Rightarrow> Scope_get name scope) of
        Inl e \<Rightarrow> Inl e
      | Inr None \<Rightarrow> Inl (InvalidFilterParameter name)
      | Inr (Some type_lhs) \<Rightarrow>
          (case typeForValue v scope of
             Inl e \<Rightarrow> Inl e
           | Inr type_rhs \<Rightarrow>
               (case resolveFilterOverload type_lhs operator type_rhs of
                  Inl e \<Rightarrow> Inl e
                | Inr ov' \<Rightarrow>
                    (case recordLambdaArg v name scope st of
                       Inl e \<Rightarrow> Inl e
                     | Inr st' \<Rightarrow> Inr (BAtom name operator v (Some ov'), scope, st')))))"
| "typeCheckFilter env classes (BExternal sel channel in_params inner sch eff) schema scope st =
     (case ensureSchema env classes (Prim_Invocation sel channel) sch ''query'' of
        Inl e \<Rightarrow> Inl e
      | Inr a \<Rightarrow>
          (case typeCheckInputArgs a in_params scope st False of
             Inl e \<Rightarrow> Inl e
           | Inr (in_params', scope1, st1) \<Rightarrow>
               (case typeCheckFilter env classes inner (Some a) scope1 st1 of
                  Inl e \<Rightarrow> Inl e
                | Inr (inner', scope2, st2) \<Rightarrow>
                    Inr (BExternal sel channel in_params' inner' (Some a)
                           (Some (effectiveSelector classes sel)), scope2, st2))))"
| "typeCheckFilters env classes [] schema scope st = Inr ([], scope, st)"
| "typeCheckFilters env classes (f # fs) schema scope st =
     (case typeCheckFilter env classes f schema scope st of
        Inl e \<Rightarrow> Inl e
      | Inr (f', scope1, st1) \<Rightarrow>
          (case typeCheckFilters env classes fs schema scope1 st1 of
             Inl e \<Rightarrow> Inl e
           | Inr (fs', scope2, st2) \<Rightarrow> Inr (f' # fs', scope2, st2)))"

text \<open>\<^verbatim>\<open>typeCheckFilter\<close> of a filter that may be missing.\<close>

fun typeCheckFilterOpt ::
  "env \<Rightarrow> (string \<times> string) list \<Rightarrow> filter option \<Rightarrow> addr option \<Rightarrow> Scope \<Rightarrow> store
     \<Rightarrow> error + (filter option \<times> Scope \<times> store)" where
  "typeCheckFilterOpt env classes None schema scope st = Inr (None, scope, st)"
| "typeCheckFilterOpt env classes (Some f) schema scope st =
     (case typeCheckFilter env classes f schema scope st of
        Inl e \<Rightarrow> Inl e
      | Inr (f', scope', st') \<Rightarrow> Inr (Some f', scope', st'))"

text \<open>
  \<^verbatim>\<open>resolveScalarExpression\<close>. The filter of a Boolean expression is checked to its end
  (the source does not await it, so that what an external sub-query of the filter raises
  after its schema arrives is lost to the caller). The operands of a derived expression
  are resolved from left to right; \<^verbatim>\<open>operands[0]\<close> and \<^verbatim>\<open>operands[1]\<close> of fewer than two
  operands are \<^verbatim>\<open>undefined\<close>, which no overload is tried on.
\<close>

fun resolveScalarExpression ::
  "env \<Rightarrow> (string \<times> string) list \<Rightarrow> scalarExpr \<Rightarrow> addr \<Rightarrow> Scope \<Rightarrow> store
     \<Rightarrow> error + (ttype \<times> scalarExpr \<times> Scope \<times> store)"
and resolveScalarExpressions ::
  "env \<Rightarrow> (string \<times> string) list \<Rightarrow> scalarExpr list \<Rightarrow> addr \<Rightarrow> Scope \<Rightarrow> store
     \<Rightarrow> error + (ttype list \<times> scalarExpr list \<times> Scope \<times> store)"
where
  "resolveScalarExpression env classes (SE_Boolean f) schema scope st =
     (case typeCheckFilter env classes f (Some schema) scope st of
        Inl e \<Rightarrow> Inl e
      | Inr (f', scope', st') \<Rightarrow> Inr (Boolean, SE_Boolean f', scope', st'))"
| "resolveScalarExpression env classes (SE_Primary v) schema scope st =
     (case v of
        Value_VarRef name \<Rightarrow>
          (case (case schemaParam st (Some schema) name of
                   Some t \<Rightarrow> Inr (Some t)
                 | None \<Rightarrow> Scope_get name scope) of
             Inl e \<Rightarrow> Inl e
           | Inr None \<Rightarrow> Inl (InvalidParameter name)
           | Inr (Some paramType) \<Rightarrow> Inr (paramType, SE_Primary v, scope, st))
      | _ \<Rightarrow>
          (case typeForValue v scope of
             Inl e \<Rightarrow> Inl e
           | Inr t \<Rightarrow> Inr (t, SE_Primary v, scope, st)))"
| "resolveScalarExpression env classes (SE_Derived operator operands) schema scope st =
     (case resolveScalarExpressions env classes operands schema scope st of
        Inl e \<Rightarrow> Inl e
      | Inr (ts, operands', scope', st') \<Rightarrow>
          (case ts of
             t0 # t1 # _ \<Rightarrow>
               (case resolveScalarExpressionOps t0 operator t1 of
                  Inl e \<Rightarrow> Inl e
                | Inr t \<Rightarrow> Inr (t, SE_Derived operator operands', scope', st'))
           | _ \<Rightarrow>
               (case map_of ScalarExpressionOps operator of
                  None \<Rightarrow> Inl (InvalidOperator operator)
                | Some _ \<Rightarrow> Inl JsCrash)))"
| "resolveScalarExpressions env classes [] schema scope st = Inr ([], [], scope, st)"
| "resolveScalarExpressions env classes (x # xs) schema scope st =
     (case resolveScalarExpression env classes x schema scope st of
        Inl e \<Rightarrow> Inl e
      | Inr (t, x', scope1, st1) \<Rightarrow>
          (case resolveScalarExpressions env classes xs schema scope1 st1 of
             Inl e \<Rightarrow> Inl e
           | Inr (ts, xs', scope2, st2) \<Rightarrow> Inr (t # ts, x' # xs', scope2, st2)))"

section \<open>Rewriting a schema in the store\<close>

text \<open>
  Each helper below computes the new contents of the schema with the function of the
  same name above, and says for each field the source assigns or changes whether the
  field gets a new array or map, or the one it has is changed in place.
\<close>

text \<open>\<^verbatim>\<open>cleanOutput\<close> assigns new arrays to \<^verbatim>\<open>args\<close> and \<^verbatim>\<open>types\<close> (\<^verbatim>\<open>slice\<close>) and a new
  map to \<^verbatim>\<open>out\<close>, and deletes from \<^verbatim>\<open>index\<close> in place; \<^verbatim>\<open>addOutput\<close> changes all four in
  place. Together: \<^verbatim>\<open>args\<close>, \<^verbatim>\<open>types\<close> and \<^verbatim>\<open>out\<close> are new, \<^verbatim>\<open>index\<close> is the old map.\<close>

definition store_newOutput :: "addr \<Rightarrow> schema \<Rightarrow> store \<Rightarrow> store" where
  "store_newOutput a s' st =
     set_out a (out s') (upd_index a (index s') (set_types a (types s') (set_args a (args s') st)))"

definition typeCheckAggregation_st ::
  "env \<Rightarrow> aggregation \<Rightarrow> addr \<Rightarrow> Scope \<Rightarrow> store \<Rightarrow> error + (aggregation \<times> Scope \<times> store)" where
  "typeCheckAggregation_st env ag a scope st =
     (case typeCheckAggregation (Aggregations env) (ag_field ag) (ag_operator ag) (ag_alias ag)
             (load st a) scope of
        Inl e \<Rightarrow> Inl e
      | Inr (ov, s', scope') \<Rightarrow>
          Inr (ag\<lparr>ag_overload := Some ov\<rparr>, scope', store_newOutput a s' st))"

text \<open>\<^verbatim>\<open>resolveProjection\<close>: \<^verbatim>\<open>args\<close> becomes the projection list of the node, \<^verbatim>\<open>types\<close>
  and \<^verbatim>\<open>index\<close> are new, and \<^verbatim>\<open>out\<close> is deleted from in place.\<close>

definition resolveProjection_st ::
  "string list \<Rightarrow> addr \<Rightarrow> Scope \<Rightarrow> store \<Rightarrow> error + (Scope \<times> store)" where
  "resolveProjection_st projArgs a scope st =
     (case resolveProjection projArgs (load st a) scope of
        Inl e \<Rightarrow> Inl e
      | Inr (s', scope') \<Rightarrow>
          Inr (scope',
               upd_out a (out s') (set_index a (index s') (set_types a (types s')
                 (set_args a (args s') st)))))"

text \<open>\<^verbatim>\<open>ast.schema.index = rhs.schema.args.reduce(..., lhs.schema.index)\<close>: the accumulator
  of the \<^verbatim>\<open>reduce\<close> is the map of the left schema itself, which the join's schema then
  refers to.\<close>

definition share_index :: "addr \<Rightarrow> addr \<Rightarrow> store \<Rightarrow> store" where
  "share_index j l st =
     st\<lparr>objs := (objs st)[j := (objs st ! j)\<lparr>index_p := index_p (objs st ! l)\<rparr>]\<rparr>"

text \<open>\<^verbatim>\<open>resolveJoin\<close>: the join's schema is a clone of the left one; its \<^verbatim>\<open>args\<close> and
  \<^verbatim>\<open>types\<close> (\<^verbatim>\<open>concat\<close>), \<^verbatim>\<open>inReq\<close> and \<^verbatim>\<open>inOpt\<close> are new; its \<^verbatim>\<open>index\<close> is the left
  schema's map, changed in place; its \<^verbatim>\<open>out\<close> is the clone's, changed in place.\<close>

definition resolveJoin_st :: "addr \<Rightarrow> addr \<Rightarrow> store \<Rightarrow> addr \<times> store" where
  "resolveJoin_st l r st =
     (case clone l st of
        (j, st1) \<Rightarrow>
          (let s' = resolveJoin (load st l) (load st r) in
           (j, upd_out j (out s') (set_inOpt j (inOpt s') (set_inReq j (inReq s')
                 (upd_index j (index s') (share_index j l
                   (set_types j (types s') (set_args j (args s') st1)))))))))"

text \<open>\<^verbatim>\<open>updateLambdaArgs\<close> changes \<^verbatim>\<open>args\<close>, \<^verbatim>\<open>index\<close>, \<^verbatim>\<open>inReq\<close> and \<^verbatim>\<open>inOpt\<close> in place.\<close>

definition updateLambdaArgs_st ::
  "addr \<Rightarrow> Scope \<Rightarrow> (string \<times> ttype) list \<Rightarrow> store \<Rightarrow> store" where
  "updateLambdaArgs_st a scope tys st =
     (let s' = updateLambdaArgs (load st a)
                 (map (\<lambda>(name, l). (name, nameArrs st ! l)) (x_lambda_args scope)) tys
      in upd_inOpt a (inOpt s') (upd_inReq a (inReq s') (upd_index a (index s')
           (upd_args a (args s') st))))"

text \<open>\<^verbatim>\<open>typeCheckComputation\<close>, once the type of the expression is known.\<close>

definition computationOutput ::
  "string option \<Rightarrow> ttype \<Rightarrow> addr \<Rightarrow> Scope \<Rightarrow> store \<Rightarrow> Scope \<times> store" where
  "computationOutput alias type a scope st =
     (case cleanOutput (load st a) scope of
        (s1, scope1) \<Rightarrow>
          (case addOutput s1 (aliasOr alias ''result'') type scope1 of
             (s2, scope2) \<Rightarrow> (scope2, store_newOutput a s2 st)))"

section \<open>Primitives\<close>

definition typeCheckInput ::
  "env \<Rightarrow> (string \<times> string) list \<Rightarrow> invocation \<Rightarrow> Scope \<Rightarrow> store \<Rightarrow> bool
     \<Rightarrow> error + (invocation \<times> Scope \<times> store)" where
  "typeCheckInput env classes ivc scope st isDeclaration =
     (case ensureSchema env classes (Prim_Invocation (inv_selector ivc) (inv_channel ivc))
             (inv_schema ivc) ''query'' of
        Inl e \<Rightarrow> Inl e
      | Inr a \<Rightarrow>
          (case typeCheckInputArgs a (inv_in_params ivc) scope st isDeclaration of
             Inl e \<Rightarrow> Inl e
           | Inr (in_params', scope1, st1) \<Rightarrow>
               (case typeCheckFilterOpt env classes (inv_filter ivc) (Some a) scope1 st1 of
                  Inl e \<Rightarrow> Inl e
                | Inr (filter', scope2, st2) \<Rightarrow>
                    (case inv_aggregation ivc of
                       Some ag \<Rightarrow>
                         (case typeCheckAggregation_st env ag a scope2 st2 of
                            Inl e \<Rightarrow> Inl e
                          | Inr (ag', scope3, st3) \<Rightarrow>
                              Inr (ivc\<lparr>inv_in_params := in_params', inv_filter := filter',
                                       inv_schema := Some a, inv_aggregation := Some ag',
                                       inv_effectiveSelector :=
                                         Some (effectiveSelector classes (inv_selector ivc))\<rparr>,
                                   scope3, st3))
                     | None \<Rightarrow>
                         (case Scope_assign (emptyFunction env) (out (load st2 a)) scope2 st2 of
                            Inl e \<Rightarrow> Inl e
                          | Inr (scope3, st3) \<Rightarrow>
                              Inr (ivc\<lparr>inv_in_params := in_params', inv_filter := filter',
                                       inv_schema := Some a,
                                       inv_effectiveSelector :=
                                         Some (effectiveSelector classes (inv_selector ivc))\<rparr>,
                                   scope3, st3))))))"

definition typeCheckOutput ::
  "env \<Rightarrow> (string \<times> string) list \<Rightarrow> invocation \<Rightarrow> Scope \<Rightarrow> store \<Rightarrow> bool
     \<Rightarrow> error + (invocation \<times> Scope \<times> store)" where
  "typeCheckOutput env classes ivc scope st isDeclaration =
     (case ensureSchema env classes (Prim_Invocation (inv_selector ivc) (inv_channel ivc))
             (inv_schema ivc) ''action'' of
        Inl e \<Rightarrow> Inl e
      | Inr a \<Rightarrow>
          (case typeCheckInputArgs a (inv_in_params ivc) scope st isDeclaration of
             Inl e \<Rightarrow> Inl e
           | Inr (in_params', scope1, st1) \<Rightarrow>
               Inr (ivc\<lparr>inv_in_params := in_params', inv_schema := Some a,
                        inv_effectiveSelector :=
                          Some (effectiveSelector classes (inv_selector ivc))\<rparr>,
                    scope1, st1)))"

text \<open>The case of a reference to a variable, the same in \<^verbatim>\<open>typeCheckTable\<close> and
  \<^verbatim>\<open>typeCheckStream\<close>: the schema of a global of that name is cloned onto the node; then
  \<^verbatim>\<open>ensureSchema\<close> and \<^verbatim>\<open>typeCheckInput\<close>, of a node with neither filter nor aggregation.\<close>

definition typeCheckVarRef ::
  "env \<Rightarrow> (string \<times> string) list \<Rightarrow> varref \<Rightarrow> Scope \<Rightarrow> store \<Rightarrow> bool
     \<Rightarrow> error + (varref \<times> Scope \<times> store)" where
  "typeCheckVarRef env classes v scope st isDeclaration =
     (case (case Scope_getSchema (vr_name v) scope of
              Some g \<Rightarrow> (case clone g st of (c, st0) \<Rightarrow> (Some c, st0))
            | None \<Rightarrow> (vr_schema v, st)) of
        (schema0, st0) \<Rightarrow>
          (case ensureSchema env classes (Prim_VarRef (vr_name v)) schema0 ''query'' of
             Inl e \<Rightarrow> Inl e
           | Inr a \<Rightarrow>
               (case typeCheckInputArgs a (vr_in_params v) scope st0 isDeclaration of
                  Inl e \<Rightarrow> Inl e
                | Inr (in_params', scope1, st1) \<Rightarrow>
                    (case Scope_assign (emptyFunction env) (out (load st1 a)) scope1 st1 of
                       Inl e \<Rightarrow> Inl e
                     | Inr (scope2, st2) \<Rightarrow>
                         Inr (v\<lparr>vr_in_params := in_params', vr_schema := Some a\<rparr>,
                              scope2, st2)))))"

section \<open>Tables and streams\<close>

text \<open>\<^verbatim>\<open>ast.schema = child.schema.clone()\<close>.\<close>

fun cloneSchema :: "addr option \<Rightarrow> store \<Rightarrow> error + (addr \<times> store)" where
  "cloneSchema None st = Inl JsCrash"
| "cloneSchema (Some a) st = Inr (clone a st)"

text \<open>The range of a window or sequence, and of a time series or history.\<close>

definition checkRange :: "tvalue \<Rightarrow> tvalue \<Rightarrow> Scope \<Rightarrow> error + unit" where
  "checkRange base delta scope =
     (case typeForValue base scope of
        Inl e \<Rightarrow> Inl e
      | Inr tb \<Rightarrow>
          if tb \<noteq> Number then Inl InvalidRange
          else (case typeForValue delta scope of
                  Inl e \<Rightarrow> Inl e
                | Inr td \<Rightarrow> if td \<noteq> Number then Inl InvalidRange else Inr ()))"

definition checkTimeRange :: "tvalue \<Rightarrow> tvalue \<Rightarrow> Scope \<Rightarrow> error + unit" where
  "checkTimeRange base delta scope =
     (case typeForValue base scope of
        Inl e \<Rightarrow> Inl e
      | Inr tb \<Rightarrow>
          if tb \<noteq> Date then Inl InvalidTimeRange
          else (case typeForValue delta scope of
                  Inl e \<Rightarrow> Inl e
                | Inr td \<Rightarrow> if td \<noteq> Measure ''ms'' then Inl InvalidTimeRange else Inr ()))"

definition typeCheckArgMinMax ::
  "env \<Rightarrow> string \<Rightarrow> string \<Rightarrow> tvalue \<Rightarrow> tvalue \<Rightarrow> schema \<Rightarrow> error + unit" where
  "typeCheckArgMinMax env field operator base limit s =
     (case map_of (ArgMinMax env) operator of
        None \<Rightarrow> Inl (InvalidAggregation operator)
      | Some ts \<Rightarrow>
          (case map_of (out s) field of
             None \<Rightarrow> Inl (InvalidField field)
           | Some fieldType \<Rightarrow>
               if list_all (\<lambda>t. \<not> fst (isAssignable fieldType t emptyTypeScope False)) ts
               then Inl (InvalidArgMinMaxField operator field)
               else if base \<noteq> Value_Literal Number \<or> limit \<noteq> Value_Literal Number
               then Inl InvalidRange
               else Inr ()))"

definition typeCheckMonitor :: "string list option \<Rightarrow> schema \<Rightarrow> error + unit" where
  "typeCheckMonitor args_opt s =
     (case args_opt of
        None \<Rightarrow> Inr ()
      | Some as \<Rightarrow>
          (case find (\<lambda>arg. \<not> has_key arg (out s)) as of
             Some arg \<Rightarrow> Inl (InvalidFieldName arg)
           | None \<Rightarrow> Inr ()))"

text \<open>The loop of a join over its input parameters:
  \<^verbatim>\<open>rightscope.removeInReq(inParam.name, leftscope.get(inParam.value.name))\<close>. The argument
  \<^verbatim>\<open>get\<close> is called for may raise; its value is not used.\<close>

fun removeJoinInReq :: "(string \<times> tvalue) list \<Rightarrow> Scope \<Rightarrow> Scope \<Rightarrow> error + Scope" where
  "removeJoinInReq [] leftscope rightscope = Inr rightscope"
| "removeJoinInReq ((name, v) # rest) leftscope rightscope =
     (case (case v of
              Value_VarRef n \<Rightarrow> Scope_get n leftscope
            | Value_Event (Some n) t \<Rightarrow> Scope_get n leftscope
            | _ \<Rightarrow> Inr None) of
        Inl e \<Rightarrow> Inl e
      | Inr _ \<Rightarrow> removeJoinInReq rest leftscope (Scope_removeInReq name rightscope))"

text \<open>A join after its two sides are checked, in the scopes \<open>leftscope\<close> and
  \<open>rightscope\<close> they were checked in: \<^verbatim>\<open>resolveJoin\<close>, the loop over the parameters,
  \<^verbatim>\<open>typeCheckJoinInput\<close> in the left scope, and the two merges into the caller's scope.\<close>

definition typeCheckJoin ::
  "env \<Rightarrow> addr option \<Rightarrow> addr option \<Rightarrow> (string \<times> tvalue) list \<Rightarrow> Scope \<Rightarrow> Scope \<Rightarrow> Scope
     \<Rightarrow> store \<Rightarrow> error + ((string \<times> tvalue) list \<times> addr \<times> Scope \<times> store)" where
  "typeCheckJoin env lhs rhs in_params scope leftscope rightscope st =
     (case (lhs, rhs) of
        (Some l, Some r) \<Rightarrow>
          (case resolveJoin_st l r st of
             (j, st1) \<Rightarrow>
               (case removeJoinInReq in_params (leftscope\<lparr>has_event := True\<rparr>) rightscope of
                  Inl e \<Rightarrow> Inl e
                | Inr rightscope1 \<Rightarrow>
                    (case typeCheckInputArgs j in_params (leftscope\<lparr>has_event := True\<rparr>) st1 False of
                       Inl e \<Rightarrow> Inl e
                     | Inr (in_params', leftscope2, st2) \<Rightarrow>
                         (case Scope_assign (emptyFunction env) (out (load st2 j)) leftscope2 st2 of
                            Inl e \<Rightarrow> Inl e
                          | Inr (leftscope3, st3) \<Rightarrow>
                              (case Scope_merge leftscope3 scope of
                                 Inl e \<Rightarrow> Inl e
                               | Inr scope1 \<Rightarrow>
                                   (case Scope_merge rightscope1 scope1 of
                                      Inl e \<Rightarrow> Inl e
                                    | Inr scope2 \<Rightarrow> Inr (in_params', j, scope2, st3)))))))
      | _ \<Rightarrow> Inl JsCrash)"

text \<open>\<^verbatim>\<open>scope.addGlobal(ast.name, ast.schema); scope.prefix(ast.name)\<close>.\<close>

definition aliasScope :: "string \<Rightarrow> addr \<Rightarrow> Scope \<Rightarrow> store \<Rightarrow> error + (Scope \<times> store)" where
  "aliasScope name a scope st =
     (case Scope_addGlobal name a scope st of
        Inl e \<Rightarrow> Inl e
      | Inr (scope1, st1) \<Rightarrow> Inr (Scope_prefix name scope1, st1))"

text \<open>
  \<^verbatim>\<open>typeCheckStream\<close> as a sequence or history calls it, on its \<^verbatim>\<open>table\<close>: a reference
  to a variable is checked as one; a filter, alias, projection or join of tables has no
  \<^verbatim>\<open>stream\<close>, and the recursive call reads a property of \<^verbatim>\<open>undefined\<close>; nothing else is
  implemented.
\<close>

fun typeCheckStreamOfTable ::
  "env \<Rightarrow> (string \<times> string) list \<Rightarrow> table \<Rightarrow> Scope \<Rightarrow> store \<Rightarrow> bool
     \<Rightarrow> error + (table \<times> Scope \<times> store)" where
  "typeCheckStreamOfTable env classes (TVarRef v) scope st isDeclaration =
     (case typeCheckVarRef env classes v scope st isDeclaration of
        Inl e \<Rightarrow> Inl e
      | Inr (v', scope', st') \<Rightarrow> Inr (TVarRef v', scope', st'))"
| "typeCheckStreamOfTable env classes (TFilter t f s) scope st isDeclaration = Inl JsCrash"
| "typeCheckStreamOfTable env classes (TAlias t n s) scope st isDeclaration = Inl JsCrash"
| "typeCheckStreamOfTable env classes (TProjection t as s) scope st isDeclaration = Inl JsCrash"
| "typeCheckStreamOfTable env classes (TJoin l r ps s) scope st isDeclaration = Inl JsCrash"
| "typeCheckStreamOfTable env classes t scope st isDeclaration = Inl NotImplemented"

text \<open>
  \<^verbatim>\<open>typeCheckTable\<close> and \<^verbatim>\<open>typeCheckStream\<close>. The result has the node as the checker
  leaves it, the caller's scope and the store.
\<close>

fun typeCheckTable ::
  "env \<Rightarrow> (string \<times> string) list \<Rightarrow> table \<Rightarrow> Scope \<Rightarrow> store \<Rightarrow> bool
     \<Rightarrow> error + (table \<times> Scope \<times> store)"
and typeCheckStream ::
  "env \<Rightarrow> (string \<times> string) list \<Rightarrow> stream \<Rightarrow> Scope \<Rightarrow> store \<Rightarrow> bool
     \<Rightarrow> error + (stream \<times> Scope \<times> store)"
where
  "typeCheckTable env classes (TVarRef v) scope st isDeclaration =
     (case typeCheckVarRef env classes v scope st isDeclaration of
        Inl e \<Rightarrow> Inl e
      | Inr (v', scope', st') \<Rightarrow> Inr (TVarRef v', scope', st'))"
| "typeCheckTable env classes (TInvocation ivc s) scope st isDeclaration =
     (case ensureSchema env classes (Prim_Invocation (inv_selector ivc) (inv_channel ivc))
             (inv_schema ivc) ''query'' of
        Inl e \<Rightarrow> Inl e
      | Inr a \<Rightarrow>
          (case clone a st of
             (c, st1) \<Rightarrow>
               (case typeCheckInput env classes (ivc\<lparr>inv_schema := Some a\<rparr>) scope st1 isDeclaration of
                  Inl e \<Rightarrow> Inl e
                | Inr (ivc', scope', st2) \<Rightarrow> Inr (TInvocation ivc' (Some c), scope', st2))))"
| "typeCheckTable env classes (TFilter t f s) scope st isDeclaration =
     (case typeCheckTable env classes t scope st isDeclaration of
        Inl e \<Rightarrow> Inl e
      | Inr (t', scope1, st1) \<Rightarrow>
          (case cloneSchema (table_schema t') st1 of
             Inl e \<Rightarrow> Inl e
           | Inr (c, st2) \<Rightarrow>
               (case typeCheckFilter env classes f (Some c) scope1 st2 of
                  Inl e \<Rightarrow> Inl e
                | Inr (f', scope2, st3) \<Rightarrow> Inr (TFilter t' f' (Some c), scope2, st3))))"
| "typeCheckTable env classes (TProjection t projArgs s) scope st isDeclaration =
     (case typeCheckTable env classes t scope st isDeclaration of
        Inl e \<Rightarrow> Inl e
      | Inr (t', scope1, st1) \<Rightarrow>
          (case cloneSchema (table_schema t') st1 of
             Inl e \<Rightarrow> Inl e
           | Inr (c, st2) \<Rightarrow>
               (case resolveProjection_st projArgs c scope1 st2 of
                  Inl e \<Rightarrow> Inl e
                | Inr (scope2, st3) \<Rightarrow> Inr (TProjection t' projArgs (Some c), scope2, st3))))"
| "typeCheckTable env classes (TAlias t name s) scope st isDeclaration =
     (case typeCheckTable env classes t scope st isDeclaration of
        Inl e \<Rightarrow> Inl e
      | Inr (t', scope1, st1) \<Rightarrow>
          (case cloneSchema (table_schema t') st1 of
             Inl e \<Rightarrow> Inl e
           | Inr (c, st2) \<Rightarrow>
               (case aliasScope name c scope1 st2 of
                  Inl e \<Rightarrow> Inl e
                | Inr (scope2, st3) \<Rightarrow> Inr (TAlias t' name (Some c), scope2, st3))))"
| "typeCheckTable env classes (TAggregation t ag s) scope st isDeclaration =
     (case typeCheckTable env classes t scope st isDeclaration of
        Inl e \<Rightarrow> Inl e
      | Inr (t', scope1, st1) \<Rightarrow>
          (case cloneSchema (table_schema t') st1 of
             Inl e \<Rightarrow> Inl e
           | Inr (c, st2) \<Rightarrow>
               (case typeCheckAggregation_st env ag c scope1 st2 of
                  Inl e \<Rightarrow> Inl e
                | Inr (ag', scope2, st3) \<Rightarrow> Inr (TAggregation t' ag' (Some c), scope2, st3))))"
| "typeCheckTable env classes (TArgMinMax t field operator base limit s) scope st isDeclaration =
     (case typeCheckTable env classes t scope st isDeclaration of
        Inl e \<Rightarrow> Inl e
      | Inr (t', scope1, st1) \<Rightarrow>
          (case cloneSchema (table_schema t') st1 of
             Inl e \<Rightarrow> Inl e
           | Inr (c, st2) \<Rightarrow>
               (case typeCheckArgMinMax env field operator base limit (load st2 c) of
                  Inl e \<Rightarrow> Inl e
                | Inr _ \<Rightarrow> Inr (TArgMinMax t' field operator base limit (Some c), scope1, st2))))"
| "typeCheckTable env classes (TJoin lhs rhs in_params s) scope st isDeclaration =
     (case typeCheckTable env classes lhs (Scope_new (Some scope)) st isDeclaration of
        Inl e \<Rightarrow> Inl e
      | Inr (lhs', leftscope, st1) \<Rightarrow>
          (case typeCheckTable env classes rhs (Scope_new (Some scope)) st1 isDeclaration of
             Inl e \<Rightarrow> Inl e
           | Inr (rhs', rightscope, st2) \<Rightarrow>
               (case typeCheckJoin env (table_schema lhs') (table_schema rhs') in_params scope
                       leftscope rightscope st2 of
                  Inl e \<Rightarrow> Inl e
                | Inr (in_params', j, scope', st3) \<Rightarrow>
                    Inr (TJoin lhs' rhs' in_params' (Some j), scope', st3))))"
| "typeCheckTable env classes (TWindow base delta str s) scope st isDeclaration =
     (case checkRange base delta scope of
        Inl e \<Rightarrow> Inl e
      | Inr _ \<Rightarrow>
          (case typeCheckStream env classes str scope st isDeclaration of
             Inl e \<Rightarrow> Inl e
           | Inr (str', scope1, st1) \<Rightarrow>
               (case cloneSchema (stream_schema str') st1 of
                  Inl e \<Rightarrow> Inl e
                | Inr (c, st2) \<Rightarrow> Inr (TWindow base delta str' (Some c), scope1, st2))))"
| "typeCheckTable env classes (TTimeSeries base delta str s) scope st isDeclaration =
     (case checkTimeRange base delta scope of
        Inl e \<Rightarrow> Inl e
      | Inr _ \<Rightarrow>
          (case typeCheckStream env classes str scope st isDeclaration of
             Inl e \<Rightarrow> Inl e
           | Inr (str', scope1, st1) \<Rightarrow>
               (case cloneSchema (stream_schema str') st1 of
                  Inl e \<Rightarrow> Inl e
                | Inr (c, st2) \<Rightarrow> Inr (TTimeSeries base delta str' (Some c), scope1, st2))))"
| "typeCheckTable env classes (TSequence base delta t s) scope st isDeclaration =
     (case checkRange base delta scope of
        Inl e \<Rightarrow> Inl e
      | Inr _ \<Rightarrow>
          (case typeCheckStreamOfTable env classes t scope st isDeclaration of
             Inl e \<Rightarrow> Inl e
           | Inr (t', scope1, st1) \<Rightarrow>
               (case cloneSchema (table_schema t') st1 of
                  Inl e \<Rightarrow> Inl e
                | Inr (c, st2) \<Rightarrow> Inr (TSequence base delta t' (Some c), scope1, st2))))"
| "typeCheckTable env classes (THistory base delta t s) scope st isDeclaration =
     (case checkTimeRange base delta scope of
        Inl e \<Rightarrow> Inl e
      | Inr _ \<Rightarrow>
          (case typeCheckStreamOfTable env classes t scope st isDeclaration of
             Inl e \<Rightarrow> Inl e
           | Inr (t', scope1, st1) \<Rightarrow>
               (case cloneSchema (table_schema t') st1 of
                  Inl e \<Rightarrow> Inl e
                | Inr (c, st2) \<Rightarrow> Inr (THistory base delta t' (Some c), scope1, st2))))"
| "typeCheckTable env classes (TCompute t expr alias s) scope st isDeclaration =
     (case typeCheckTable env classes t scope st isDeclaration of
        Inl e \<Rightarrow> Inl e
      | Inr (t', scope1, st1) \<Rightarrow>
          (case (table_schema t', cloneSchema (table_schema t') st1) of
             (Some inner, Inr (c, st2)) \<Rightarrow>
               (case resolveScalarExpression env classes expr inner scope1 st2 of
                  Inl e \<Rightarrow> Inl e
                | Inr (type, expr', scope2, st3) \<Rightarrow>
                    (case computationOutput alias type c scope2 st3 of
                       (scope3, st4) \<Rightarrow> Inr (TCompute t' expr' alias (Some c), scope3, st4)))
           | _ \<Rightarrow> Inl JsCrash))"
| "typeCheckStream env classes (SVarRef v) scope st isDeclaration =
     (case typeCheckVarRef env classes v scope st isDeclaration of
        Inl e \<Rightarrow> Inl e
      | Inr (v', scope', st') \<Rightarrow> Inr (SVarRef v', scope', st'))"
| "typeCheckStream env classes (STimer s) scope st isDeclaration =
     Inr (STimer (Some (emptyFunction env)), scope, st)"
| "typeCheckStream env classes (SAtTimer s) scope st isDeclaration =
     Inr (SAtTimer (Some (emptyFunction env)), scope, st)"
| "typeCheckStream env classes (SMonitor t monArgs s) scope st isDeclaration =
     (case typeCheckTable env classes t scope st isDeclaration of
        Inl e \<Rightarrow> Inl e
      | Inr (t', scope1, st1) \<Rightarrow>
          (case cloneSchema (table_schema t') st1 of
             Inl e \<Rightarrow> Inl e
           | Inr (c, st2) \<Rightarrow>
               (case typeCheckMonitor monArgs (load st2 c) of
                  Inl e \<Rightarrow> Inl e
                | Inr _ \<Rightarrow> Inr (SMonitor t' monArgs (Some c), scope1, st2))))"
| "typeCheckStream env classes (SEdgeNew str s) scope st isDeclaration =
     (case typeCheckStream env classes str scope st isDeclaration of
        Inl e \<Rightarrow> Inl e
      | Inr (str', scope1, st1) \<Rightarrow>
          (case cloneSchema (stream_schema str') st1 of
             Inl e \<Rightarrow> Inl e
           | Inr (c, st2) \<Rightarrow> Inr (SEdgeNew str' (Some c), scope1, st2)))"
| "typeCheckStream env classes (SEdgeFilter str f s) scope st isDeclaration =
     (case typeCheckStream env classes str scope st isDeclaration of
        Inl e \<Rightarrow> Inl e
      | Inr (str', scope1, st1) \<Rightarrow>
          (case cloneSchema (stream_schema str') st1 of
             Inl e \<Rightarrow> Inl e
           | Inr (c, st2) \<Rightarrow>
               (case typeCheckFilter env classes f (Some c) scope1 st2 of
                  Inl e \<Rightarrow> Inl e
                | Inr (f', scope2, st3) \<Rightarrow> Inr (SEdgeFilter str' f' (Some c), scope2, st3))))"
| "typeCheckStream env classes (SFilter str f s) scope st isDeclaration =
     (case typeCheckStream env classes str scope st isDeclaration of
        Inl e \<Rightarrow> Inl e
      | Inr (str', scope1, st1) \<Rightarrow>
          (case cloneSchema (stream_schema str') st1 of
             Inl e \<Rightarrow> Inl e
           | Inr (c, st2) \<Rightarrow>
               (case typeCheckFilter env classes f (Some c) scope1 st2 of
                  Inl e \<Rightarrow> Inl e
                | Inr (f', scope2, st3) \<Rightarrow> Inr (SFilter str' f' (Some c), scope2, st3))))"
| "typeCheckStream env classes (SAlias str name s) scope st isDeclaration =
     (case typeCheckStream env classes str scope st isDeclaration of
        Inl e \<Rightarrow> Inl e
      | Inr (str', scope1, st1) \<Rightarrow>
          (case cloneSchema (stream_schema str') st1 of
             Inl e \<Rightarrow> Inl e
           | Inr (c, st2) \<Rightarrow>
               (case aliasScope name c scope1 st2 of
                  Inl e \<Rightarrow> Inl e
                | Inr (scope2, st3) \<Rightarrow> Inr (SAlias str' name (Some c), scope2, st3))))"
| "typeCheckStream env classes (SProjection str projArgs s) scope st isDeclaration =
     (case typeCheckStream env classes str scope st isDeclaration of
        Inl e \<Rightarrow> Inl e
      | Inr (str', scope1, st1) \<Rightarrow>
          (case cloneSchema (stream_schema str') st1 of
             Inl e \<Rightarrow> Inl e
           | Inr (c, st2) \<Rightarrow>
               (case resolveProjection_st projArgs c scope1 st2 of
                  Inl e \<Rightarrow> Inl e
                | Inr (scope2, st3) \<Rightarrow> Inr (SProjection str' projArgs (Some c), scope2, st3))))"
| "typeCheckStream env classes (SJoin str t in_params s) scope st isDeclaration =
     (case typeCheckStream env classes str (Scope_new (Some scope)) st isDeclaration of
        Inl e \<Rightarrow> Inl e
      | Inr (str', leftscope, st1) \<Rightarrow>
          (case typeCheckTable env classes t (Scope_new (Some scope)) st1 isDeclaration of
             Inl e \<Rightarrow> Inl e
           | Inr (t', rightscope, st2) \<Rightarrow>
               (case typeCheckJoin env (stream_schema str') (table_schema t') in_params scope
                       leftscope rightscope st2 of
                  Inl e \<Rightarrow> Inl e
                | Inr (in_params', j, scope', st3) \<Rightarrow>
                    Inr (SJoin str' t' in_params' (Some j), scope', st3))))"

section \<open>Rules, declarations and programs\<close>

text \<open>
  \<^verbatim>\<open>addRequiredInputParams\<close>, on the schema and the input parameters of a primitive: a
  placeholder is appended for each required input that no parameter gives and that is
  pending in the scope. (Every primitive of a checked tree has a schema; a primitive
  without one is left as it is here.)
\<close>

definition addRequiredInputParams ::
  "store \<Rightarrow> Scope \<Rightarrow> addr option \<Rightarrow> (string \<times> tvalue) list \<Rightarrow> (string \<times> tvalue) list" where
  "addRequiredInputParams st scope schema in_params =
     (case schema of
        None \<Rightarrow> in_params
      | Some a \<Rightarrow>
          in_params @
          map (\<lambda>(name, t). (name, Value_Undefined True))
              (filter (\<lambda>(name, t). name \<notin> set (map fst in_params) \<and> has_key name (x_inReq scope))
                      (inReq (load st a))))"

text \<open>
  \<^verbatim>\<open>iteratePrimitives()\<close> of \<^verbatim>\<open>lib/ast/base.ts\<close> lists the invocations of the tables and
  the external sub-queries of the filters in the subtree of a node, and no reference to a
  variable. The functions below apply \<open>g\<close> to the schema and input parameters of each
  and put the result in the primitive's place.
\<close>

fun filter_prims ::
  "(addr option \<Rightarrow> (string \<times> tvalue) list \<Rightarrow> (string \<times> tvalue) list) \<Rightarrow> filter \<Rightarrow> filter" where
  "filter_prims g BTrue = BTrue"
| "filter_prims g BFalse = BFalse"
| "filter_prims g (BAnd operands) = BAnd (map (filter_prims g) operands)"
| "filter_prims g (BOr operands) = BOr (map (filter_prims g) operands)"
| "filter_prims g (BNot expr) = BNot (filter_prims g expr)"
| "filter_prims g (BAtom name operator v ov) = BAtom name operator v ov"
| "filter_prims g (BExternal sel channel in_params inner sch eff) =
     BExternal sel channel (g sch in_params) (filter_prims g inner) sch eff"

fun scalarExpr_prims ::
  "(addr option \<Rightarrow> (string \<times> tvalue) list \<Rightarrow> (string \<times> tvalue) list) \<Rightarrow> scalarExpr \<Rightarrow> scalarExpr" where
  "scalarExpr_prims g (SE_Boolean f) = SE_Boolean (filter_prims g f)"
| "scalarExpr_prims g (SE_Primary v) = SE_Primary v"
| "scalarExpr_prims g (SE_Derived operator operands) =
     SE_Derived operator (map (scalarExpr_prims g) operands)"

definition invocation_prims ::
  "(addr option \<Rightarrow> (string \<times> tvalue) list \<Rightarrow> (string \<times> tvalue) list) \<Rightarrow> invocation \<Rightarrow> invocation" where
  "invocation_prims g ivc =
     ivc\<lparr>inv_in_params := g (inv_schema ivc) (inv_in_params ivc),
         inv_filter := map_option (filter_prims g) (inv_filter ivc)\<rparr>"

fun table_prims ::
  "(addr option \<Rightarrow> (string \<times> tvalue) list \<Rightarrow> (string \<times> tvalue) list) \<Rightarrow> table \<Rightarrow> table"
and stream_prims ::
  "(addr option \<Rightarrow> (string \<times> tvalue) list \<Rightarrow> (string \<times> tvalue) list) \<Rightarrow> stream \<Rightarrow> stream"
where
  "table_prims g (TVarRef v) = TVarRef v"
| "table_prims g (TInvocation ivc s) = TInvocation (invocation_prims g ivc) s"
| "table_prims g (TFilter t f s) = TFilter (table_prims g t) (filter_prims g f) s"
| "table_prims g (TProjection t projArgs s) = TProjection (table_prims g t) projArgs s"
| "table_prims g (TAlias t name s) = TAlias (table_prims g t) name s"
| "table_prims g (TAggregation t ag s) = TAggregation (table_prims g t) ag s"
| "table_prims g (TArgMinMax t field operator base limit s) =
     TArgMinMax (table_prims g t) field operator base limit s"
| "table_prims g (TJoin lhs rhs in_params s) =
     TJoin (table_prims g lhs) (table_prims g rhs) in_params s"
| "table_prims g (TWindow base delta str s) = TWindow base delta (stream_prims g str) s"
| "table_prims g (TTimeSeries base delta str s) = TTimeSeries base delta (stream_prims g str) s"
| "table_prims g (TSequence base delta t s) = TSequence base delta (table_prims g t) s"
| "table_prims g (THistory base delta t s) = THistory base delta (table_prims g t) s"
| "table_prims g (TCompute t expr alias s) =
     TCompute (table_prims g t) (scalarExpr_prims g expr) alias s"
| "stream_prims g (SVarRef v) = SVarRef v"
| "stream_prims g (STimer s) = STimer s"
| "stream_prims g (SAtTimer s) = SAtTimer s"
| "stream_prims g (SMonitor t monArgs s) = SMonitor (table_prims g t) monArgs s"
| "stream_prims g (SEdgeNew str s) = SEdgeNew (stream_prims g str) s"
| "stream_prims g (SEdgeFilter str f s) = SEdgeFilter (stream_prims g str) (filter_prims g f) s"
| "stream_prims g (SFilter str f s) = SFilter (stream_prims g str) (filter_prims g f) s"
| "stream_prims g (SAlias str name s) = SAlias (stream_prims g str) name s"
| "stream_prims g (SProjection str projArgs s) = SProjection (stream_prims g str) projArgs s"
| "stream_prims g (SJoin str t in_params s) =
     SJoin (stream_prims g str) (table_prims g t) in_params s"

text \<open>The actions of a rule, checked one after the other (the source starts the check
  of each before it awaits any).\<close>

fun typeCheckOutputs ::
  "env \<Rightarrow> (string \<times> string) list \<Rightarrow> invocation list \<Rightarrow> Scope \<Rightarrow> store
     \<Rightarrow> error + (invocation list \<times> Scope \<times> store)" where
  "typeCheckOutputs env classes [] scope st = Inr ([], scope, st)"
| "typeCheckOutputs env classes (action # rest) scope st =
     (case typeCheckOutput env classes action scope st False of
        Inl e \<Rightarrow> Inl e
      | Inr (action', scope1, st1) \<Rightarrow>
          (case typeCheckOutputs env classes rest scope1 st1 of
             Inl e \<Rightarrow> Inl e
           | Inr (rest', scope2, st2) \<Rightarrow> Inr (action' # rest', scope2, st2)))"

text \<open>The end of \<^verbatim>\<open>typeCheckRule\<close>: the actions are checked, and get their placeholders.\<close>

definition typeCheckActions ::
  "env \<Rightarrow> (string \<times> string) list \<Rightarrow> invocation list \<Rightarrow> Scope \<Rightarrow> store
     \<Rightarrow> error + (invocation list \<times> Scope \<times> store)" where
  "typeCheckActions env classes actions scope st =
     (case typeCheckOutputs env classes actions scope st of
        Inl e \<Rightarrow> Inl e
      | Inr (actions', scope1, st1) \<Rightarrow>
          Inr (map (\<lambda>prim. prim\<lparr>inv_in_params :=
                                   addRequiredInputParams st1 scope1 (inv_schema prim)
                                     (inv_in_params prim)\<rparr>) actions',
               scope1, st1))"

text \<open>\<^verbatim>\<open>ast.actions.some((a) => a.selector.isBuiltin)\<close>.\<close>

definition someBuiltin :: "invocation list \<Rightarrow> bool" where
  "someBuiltin actions = list_ex (\<lambda>a. isBuiltin (inv_selector a)) actions"

fun typeCheckRule ::
  "env \<Rightarrow> (string \<times> string) list \<Rightarrow> statement \<Rightarrow> Scope \<Rightarrow> store
     \<Rightarrow> error + (statement \<times> Scope \<times> store)" where
  "typeCheckRule env classes (Rule str actions) scope st =
     (case typeCheckStream env classes str scope st False of
        Inl e \<Rightarrow> Inl e
      | Inr (str', scope1, st1) \<Rightarrow>
          (case typeCheckActions env classes actions (scope1\<lparr>has_event := True\<rparr>) st1 of
             Inl e \<Rightarrow> Inl e
           | Inr (actions', scope2, st2) \<Rightarrow>
               Inr (Rule (stream_prims (addRequiredInputParams st1 (scope1\<lparr>has_event := True\<rparr>)) str')
                      actions', scope2, st2)))"
| "typeCheckRule env classes (Command (Some t) actions) scope st =
     (case typeCheckTable env classes t scope st False of
        Inl e \<Rightarrow> Inl e
      | Inr (t', scope1, st1) \<Rightarrow>
          (case typeCheckActions env classes actions (scope1\<lparr>has_event := True\<rparr>) st1 of
             Inl e \<Rightarrow> Inl e
           | Inr (actions', scope2, st2) \<Rightarrow>
               Inr (Command
                      (Some (table_prims (addRequiredInputParams st1 (scope1\<lparr>has_event := True\<rparr>)) t'))
                      actions', scope2, st2)))"
| "typeCheckRule env classes (Command None actions) scope st =
     (if someBuiltin actions then Inl NoGetFunction
      else (case typeCheckActions env classes actions scope st of
              Inl e \<Rightarrow> Inl e
            | Inr (actions', scope1, st1) \<Rightarrow> Inr (Command None actions', scope1, st1)))"

text \<open>The three cases of \<^verbatim>\<open>typeCheckDeclaration\<close> end alike: the schema of the value is
  cloned, the lambda arguments are renamed in the clone, the scope is cleaned, and the
  clone is bound as a global (which clones it once more).\<close>

definition declareGlobal ::
  "Declaration \<Rightarrow> addr option \<Rightarrow> Scope \<Rightarrow> store \<Rightarrow> error + (Scope \<times> store)" where
  "declareGlobal d schema scope st =
     (case cloneSchema schema st of
        Inl e \<Rightarrow> Inl e
      | Inr (c, st1) \<Rightarrow>
          Scope_addGlobal (decl_name d) c (Scope_clean (Some (decl_args d)) scope)
            (updateLambdaArgs_st c scope (decl_args d) st1))"

definition typeCheckDeclaration ::
  "env \<Rightarrow> (string \<times> string) list \<Rightarrow> Declaration \<Rightarrow> Scope \<Rightarrow> store
     \<Rightarrow> error + (Declaration \<times> Scope \<times> store)" where
  "typeCheckDeclaration env classes d scope st =
     (case decl_value d of
        Decl_Other type \<Rightarrow> Inl InvalidDeclarationType
      | Decl_Stream str \<Rightarrow>
          (case Scope_initLambdaArgs (emptyFunction env) (decl_args d) scope st of
             Inl e \<Rightarrow> Inl e
           | Inr (scope1, st1) \<Rightarrow>
               (case typeCheckStream env classes str scope1 st1 True of
                  Inl e \<Rightarrow> Inl e
                | Inr (str', scope2, st2) \<Rightarrow>
                    (case declareGlobal d (stream_schema str') scope2 st2 of
                       Inl e \<Rightarrow> Inl e
                     | Inr (scope3, st3) \<Rightarrow> Inr (d\<lparr>decl_value := Decl_Stream str'\<rparr>, scope3, st3))))
      | Decl_Table t \<Rightarrow>
          (case Scope_initLambdaArgs (emptyFunction env) (decl_args d) scope st of
             Inl e \<Rightarrow> Inl e
           | Inr (scope1, st1) \<Rightarrow>
               (case typeCheckTable env classes t scope1 st1 True of
                  Inl e \<Rightarrow> Inl e
                | Inr (t', scope2, st2) \<Rightarrow>
                    (case declareGlobal d (table_schema t') scope2 st2 of
                       Inl e \<Rightarrow> Inl e
                     | Inr (scope3, st3) \<Rightarrow> Inr (d\<lparr>decl_value := Decl_Table t'\<rparr>, scope3, st3))))
      | Decl_Action action \<Rightarrow>
          (case Scope_initLambdaArgs (emptyFunction env) (decl_args d) scope st of
             Inl e \<Rightarrow> Inl e
           | Inr (scope1, st1) \<Rightarrow>
               (case typeCheckOutput env classes action scope1 st1 True of
                  Inl e \<Rightarrow> Inl e
                | Inr (action', scope2, st2) \<Rightarrow>
                    (case declareGlobal d (inv_schema action') scope2 st2 of
                       Inl e \<Rightarrow> Inl e
                     | Inr (scope3, st3) \<Rightarrow>
                         Inr (d\<lparr>decl_value := Decl_Action action'\<rparr>, scope3, st3)))))"

text \<open>\<^verbatim>\<open>typecheckPrincipal\<close>.\<close>

fun typecheckPrincipal :: "tvalue \<Rightarrow> error + unit" where
  "typecheckPrincipal (Value_Entity k) =
     (if k = ''tt:contact'' \<or> k = ''tt:username'' then Inr () else Inl InvalidPrincipal)"
| "typecheckPrincipal _ = Inl AssertionFailed"

text \<open>The two loops of \<^verbatim>\<open>typeCheckProgram\<close>; the scope is cleaned before each
  declaration and each rule.\<close>

fun declLoop ::
  "env \<Rightarrow> (string \<times> string) list \<Rightarrow> Declaration list \<Rightarrow> Scope \<Rightarrow> store
     \<Rightarrow> error + (Declaration list \<times> Scope \<times> store)" where
  "declLoop env classes [] scope st = Inr ([], scope, st)"
| "declLoop env classes (d # ds) scope st =
     (case typeCheckDeclaration env classes d (Scope_clean None scope) st of
        Inl e \<Rightarrow> Inl e
      | Inr (d', scope1, st1) \<Rightarrow>
          (case declLoop env classes ds scope1 st1 of
             Inl e \<Rightarrow> Inl e
           | Inr (ds', scope2, st2) \<Rightarrow> Inr (d' # ds', scope2, st2)))"

fun ruleLoop ::
  "env \<Rightarrow> (string \<times> string) list \<Rightarrow> statement list \<Rightarrow> Scope \<Rightarrow> store
     \<Rightarrow> error + (statement list \<times> Scope \<times> store)" where
  "ruleLoop env classes [] scope st = Inr ([], scope, st)"
| "ruleLoop env classes (r # rs) scope st =
     (case typeCheckRule env classes r (Scope_clean None scope) st of
        Inl e \<Rightarrow> Inl e
      | Inr (r', scope1, st1) \<Rightarrow>
          (case ruleLoop env classes rs scope1 st1 of
             Inl e \<Rightarrow> Inl e
           | Inr (rs', scope2, st2) \<Rightarrow> Inr (r' # rs', scope2, st2)))"

text \<open>\<^verbatim>\<open>typeCheckProgram\<close>: the program as the checker leaves it, and the store.\<close>

definition typeCheckProgram :: "env \<Rightarrow> program \<Rightarrow> store \<Rightarrow> error + (program \<times> store)" where
  "typeCheckProgram env ast st =
     (let classes = fold (\<lambda>(name, ext). AList.update name ext) (prog_classes ast) [] in
      case (case prog_principal ast of
              None \<Rightarrow> Inr ()
            | Some p \<Rightarrow> typecheckPrincipal p) of
        Inl e \<Rightarrow> Inl e
      | Inr _ \<Rightarrow>
          (case declLoop env classes (prog_declarations ast) (Scope_new None) st of
             Inl e \<Rightarrow> Inl e
           | Inr (ds', scope1, st1) \<Rightarrow>
               (case ruleLoop env classes (prog_rules ast) scope1 st1 of
                  Inl e \<Rightarrow> Inl e
                | Inr (rs', scope2, st2) \<Rightarrow>
                    Inr (ast\<lparr>prog_declarations := ds', prog_rules := rs'\<rparr>, st2))))"

section \<open>An example environment\<close>

text \<open>
  A store with the built-in schemas, each without inputs and outputs, at the addresses
  0 to 3 (\<^verbatim>\<open>emptyFunction\<close> and the actions \<^verbatim>\<open>notify\<close>, \<^verbatim>\<open>return\<close>, \<^verbatim>\<open>save\<close>), and with the
  signatures of the current weather and of the web search at 4 and 5, where the oracle
  finds them at every call.
\<close>

definition emptySchema :: schema where
  "emptySchema = \<lparr>args = [], types = [], index = [], inReq = [], inOpt = [], out = []\<rparr>"

definition emptyStore :: store where
  "emptyStore = \<lparr>objs = [], nameArrs = [], typeArrs = [], indexObjs = [], typeObjs = []\<rparr>"

definition exampleStore :: store where
  "exampleStore =
     snd (alloc searchSchema (snd (alloc weatherSchema (snd (alloc emptySchema
       (snd (alloc emptySchema (snd (alloc emptySchema (snd (alloc emptySchema emptyStore)))))))))))"

definition exampleEnv :: env where
  "exampleEnv =
     \<lparr>schemaOracle = (\<lambda>kind channel primType.
          if kind = ''org.thingpedia.weather'' \<and> channel = ''current'' then Some 4
          else if kind = ''com.bing'' \<and> channel = ''web_search'' then Some 5
          else None),
      memoryOracle = (\<lambda>name. None),
      emptyFunction = 0, action_notify = Some 1, action_return = Some 2, action_save = Some 3,
      Aggregations = [(''count'', [(Any, Number)]),
                      (''max'', [(Number, Number), (Measure [], Measure [])])],
      ArgMinMax = [(''argmax'', [Number, Measure []])]\<rparr>"

text \<open>The action \<^verbatim>\<open>notify\<close>, the invocation of the current weather without parameters,
  and the stream \<^verbatim>\<open>timer(...) join @org.thingpedia.weather.current()\<close>.\<close>

definition notifyAction :: invocation where
  "notifyAction =
     \<lparr>inv_selector = Selector_Builtin, inv_channel = ''notify'', inv_in_params = [],
      inv_filter = None, inv_schema = None, inv_aggregation = None,
      inv_effectiveSelector = None\<rparr>"

definition weatherInvocation :: invocation where
  "weatherInvocation =
     \<lparr>inv_selector = Selector_Device ''org.thingpedia.weather'' None None,
      inv_channel = ''current'', inv_in_params = [],
      inv_filter = None, inv_schema = None, inv_aggregation = None,
      inv_effectiveSelector = None\<rparr>"

definition timerJoinWeather :: stream where
  "timerJoinWeather = SJoin (STimer None) (TInvocation weatherInvocation None) [] None"

definition timerProgram :: program where
  "timerProgram =
     \<lparr>prog_classes = [], prog_declarations = [],
      prog_rules = [Rule timerJoinWeather [notifyAction]], prog_principal = None\<rparr>"

text \<open>The contents of \<^verbatim>\<open>index\<close> of the schema of the stream or table of each rule of a
  program.\<close>

fun statement_schema :: "statement \<Rightarrow> addr option" where
  "statement_schema (Rule str actions) = stream_schema str"
| "statement_schema (Command (Some t) actions) = table_schema t"
| "statement_schema (Command None actions) = None"

definition ruleIndexes :: "program \<Rightarrow> store \<Rightarrow> (string \<times> nat option) list option list" where
  "ruleIndexes p st =
     map (\<lambda>r. map_option (\<lambda>a. index (load st a)) (statement_schema r)) (prog_rules p)"

section \<open>The schemas of a checked tree\<close>




definition fresh_range :: "addr list \<Rightarrow> nat \<Rightarrow> nat \<Rightarrow> bool" where
  "fresh_range cs n0 n1 = (distinct cs \<and> (\<forall>a \<in> set cs. n0 \<le> a \<and> a < n1) \<and> n0 \<le> n1)"

section \<open>Facts about objects\<close>

lemma keys_update: "fst ` set (AList.update k v a) = insert k (fst ` set a)"
proof -
  have "set (map fst (AList.update k v a)) = insert k (set (map fst a))"
    by (auto simp: update_keys)
  then show ?thesis by (simp only: set_map)
qed

lemma keys_delete: "fst ` set (AList.delete k a) = fst ` set a - {k}"
  by (auto simp: AList.delete_eq image_iff)



section \<open>Overload resolution\<close>

text \<open>
  C5. A filter atom whose left-hand side has an entity type, of whatever kind, and whose
  operator is \<^verbatim>\<open>=~\<close> is refused with the error for invalid parameter types, whatever the
  type of the right-hand side.
\<close>

theorem resolveFilterOverload_entity_like:
  "resolveFilterOverload (Entity k) ''=~'' type_rhs =
     Inl (InvalidParameterTypes (Entity k) type_rhs ''=~'')"
  by (simp add: resolveFilterOverload_def BinaryOps_def)

text \<open>The coercion alone would let the entity through: with the flag set, an entity is
  assignable to \<open>String\<close>.\<close>

lemma entity_coerces_to_String:
  "fst (isAssignable (Entity k) String emptyTypeScope True)"
  by (simp add: isAssignable_def)



text \<open>No overload of \<^verbatim>\<open>+\<close> has \<open>Date\<close> as its result, so the sum of a date and a measure
  is a date under no notion of assignability.\<close>

lemma plus_result_types:
  "map_of ScalarExpressionOps ''+'' = Some ovs \<Longrightarrow> (o0, o1, r) \<in> set ovs \<Longrightarrow>
     r \<in> {Measure [], Number, String}"
  by (auto simp: ScalarExpressionOps_def BinaryOps_def)

section \<open>Scope\<close>

text \<open>
  C7, at the input where the code departs from the claim: the other scope binds the
  global \<^verbatim>\<open>t\<close> (to the schema object at address 0) and the receiving scope is empty.
  After \<^verbatim>\<open>merge\<close> the name is not a global of the receiver: it is a local, bound to the
  schema object.
\<close>

theorem merge_global_becomes_local:
  "Scope_merge ((Scope_new None)\<lparr>x_globalScope := [(''t'', 0)]\<rparr>) (Scope_new None) =
     Inr ((Scope_new None)\<lparr>x_scope := [(''t'', FunctionDef 0)]\<rparr>) \<and>
   \<not> Scope_hasGlobal ''t'' ((Scope_new None)\<lparr>x_scope := [(''t'', FunctionDef 0)]\<rparr>)"
  by (simp add: Scope_merge_def Scope_new_def Scope_get_def Scope_add_def assign_obj_def
      Scope_hasGlobal_def has_key_def)

text \<open>
  C10, as the claim states it, at a name that begins with \<^verbatim>\<open>$context.location\<close> and is
  bound both globally (to the schema object at address 0) and locally: \<^verbatim>\<open>typeForValue\<close>
  does not consult the scope for it and yields \<open>Location\<close>, not the global entry.
\<close>

theorem typeForValue_context_location:
  "typeForValue (Value_VarRef ''$context.location.home'')
     ((Scope_new None)\<lparr>x_globalScope := [(''$context.location.home'', 0)],
                        x_scope := [(''$context.location.home'', String)]\<rparr>)
   \<noteq> Inr (FunctionDef 0)"
  by (simp add: startsWith_def)

text \<open>
  C10, amended. For a name that is not in the set of conflicts and is bound both globally
  and locally, \<^verbatim>\<open>get\<close> returns the global binding; so does \<^verbatim>\<open>typeForValue\<close> on a reference
  to the name, unless the name begins with \<^verbatim>\<open>$context.location\<close>, for which the scope is
  not consulted.
\<close>

theorem get_prefers_global:
  assumes "name \<notin> set (x_conflicts scope)"
    and "map_of (x_globalScope scope) name = Some a"
    and "map_of (x_scope scope) name = Some t"
  shows "Scope_get name scope = Inr (Some (FunctionDef a)) \<and>
         (\<not> startsWith name ''$context.location'' \<longrightarrow>
            typeForValue (Value_VarRef name) scope = Inr (FunctionDef a))"
  using assms by (simp add: Scope_get_def)

theorem get_prefers_global_witness:
  "Scope_get ''t'' ((Scope_new None)\<lparr>x_globalScope := [(''t'', 0)], x_scope := [(''t'', String)]\<rparr>)
     = Inr (Some (FunctionDef 0)) \<and>
   typeForValue (Value_VarRef ''t'')
     ((Scope_new None)\<lparr>x_globalScope := [(''t'', 0)], x_scope := [(''t'', String)]\<rparr>)
     = Inr (FunctionDef 0)"
  using get_prefers_global[of "''t''"
      "(Scope_new None)\<lparr>x_globalScope := [(''t'', 0)], x_scope := [(''t'', String)]\<rparr>" 0 String]
  by (simp add: Scope_new_def startsWith_def)

section \<open>Join\<close>










section \<open>Aggregation\<close>



section \<open>Projection\<close>

lemma projectionIndex_snoc:
  "projectionIndex (xs @ [x]) = AList.update x (Some (length xs)) (projectionIndex xs)"
  by (simp add: projectionIndex_def)

lemma projectionIndex_keys: "fst ` set (projectionIndex xs) = set xs"
  by (induction xs rule: rev_induct) (simp_all add: projectionIndex_snoc keys_update, simp add: projectionIndex_def)

lemma projectionIndex_position:
  "n \<in> set xs \<Longrightarrow> \<exists>i < length xs. map_of (projectionIndex xs) n = Some (Some i) \<and> xs ! i = n"
proof (induction xs rule: rev_induct)
  case Nil then show ?case by simp
next
  case (snoc x xs)
  show ?case
  proof (cases "n = x")
    case True
    then show ?thesis by (auto simp: projectionIndex_snoc update_conv' intro!: exI[of _ "length xs"])
  next
    case False
    with snoc.prems have "n \<in> set xs" by simp
    from snoc.IH[OF this] obtain i where "i < length xs" "map_of (projectionIndex xs) n = Some (Some i)" "xs ! i = n" by blast
    then show ?thesis using False by (auto simp: projectionIndex_snoc update_conv' nth_append intro!: exI[of _ i])
  qed
qed

lemma dropOutputs_map:
  "map_of (fst (dropOutputs ks as outs scope)) =
     (\<lambda>k. if k \<in> set ks \<and> notInArgs k as then None else map_of outs k)"
proof (induction ks arbitrary: outs scope)
  case Nil then show ?case by simp
next
  case (Cons k ks)
  show ?case by (auto simp: Cons.IH delete_conv' fun_eq_iff)
qed

lemma find_notInArgs_None:
  "find (\<lambda>arg. notInArgs arg as) xs = None \<longleftrightarrow> (\<forall>a \<in> set xs. Some a \<in> set as)"
  by (auto simp: find_None_iff notInArgs_def)

text \<open>
  C4, as the claim states it: after a projection that succeeds, the keys of \<^verbatim>\<open>out\<close> are
  the projection list. The projection of the web search onto its input \<^verbatim>\<open>query\<close>
  succeeds, and leaves \<^verbatim>\<open>out\<close> empty.
\<close>

theorem resolveProjection_input_not_output:
  "resolveProjection [''query''] searchSchema (Scope_new None) =
     Inr (\<lparr>args = [Some ''query''], types = [Some String], index = [(''query'', Some 0)],
           inReq = [(''query'', String)], inOpt = [], out = []\<rparr>, Scope_new None) \<and>
   fst ` set ([] :: (string \<times> ttype) list) \<noteq> set [''query'']"
  by (simp add: resolveProjection_def searchSchema_def notInArgs_def projectionIndex_def
      typeAt_def index_of_def Scope_remove_def Scope_new_def)

text \<open>
  C4, amended. If some projected name does not occur in \<^verbatim>\<open>args\<close> of the schema,
  \<^verbatim>\<open>resolveProjection\<close> fails with the error for an invalid field name. Otherwise it
  succeeds, and afterwards \<^verbatim>\<open>args\<close> is the projection list, \<^verbatim>\<open>index\<close> has the projected
  names as its keys and maps each to a position it has in the list, and the keys of
  \<^verbatim>\<open>out\<close> are the projected names that were keys of \<^verbatim>\<open>out\<close> before: the whole projection
  list when every projected name is an output, but a projected input is no key of \<^verbatim>\<open>out\<close>.
\<close>

theorem resolveProjection_schema:
  "((\<exists>a \<in> set projArgs. Some a \<notin> set (args s)) \<longrightarrow>
      (\<exists>a. resolveProjection projArgs s scope = Inl (InvalidFieldName a))) \<and>
   ((\<forall>a \<in> set projArgs. Some a \<in> set (args s)) \<longrightarrow>
      (\<exists>s' scope'. resolveProjection projArgs s scope = Inr (s', scope') \<and>
         args s' = map Some projArgs \<and>
         fst ` set (index s') = set projArgs \<and>
         (\<forall>n \<in> set projArgs. \<exists>i < length projArgs.
             map_of (index s') n = Some (Some i) \<and> projArgs ! i = n) \<and>
         fst ` set (out s') = fst ` set (out s) \<inter> set projArgs))"
proof (intro conjI impI)
  assume "\<exists>a \<in> set projArgs. Some a \<notin> set (args s)"
  then have "find (\<lambda>arg. notInArgs arg (args s)) projArgs \<noteq> None"
    by (simp add: find_notInArgs_None)
  then show "\<exists>a. resolveProjection projArgs s scope = Inl (InvalidFieldName a)"
    by (auto simp: resolveProjection_def)
next
  assume a: "\<forall>a \<in> set projArgs. Some a \<in> set (args s)"
  then have f: "find (\<lambda>arg. notInArgs arg (args s)) projArgs = None"
    by (simp add: find_notInArgs_None)
  obtain out1 scope1 where d: "dropOutputs (map fst (out s)) (map Some projArgs) (out s) scope = (out1, scope1)"
    by (cases "dropOutputs (map fst (out s)) (map Some projArgs) (out s) scope")
  have m: "map_of out1 = (\<lambda>k. if k \<in> fst ` set (out s) \<and> notInArgs k (map Some projArgs) then None else map_of (out s) k)"
    using dropOutputs_map[of "map fst (out s)" "map Some projArgs" "out s" scope] d by simp
  have "k \<in> fst ` set out1 \<longleftrightarrow> k \<in> fst ` set (out s) \<inter> set projArgs" for k
  proof -
    have "k \<in> fst ` set out1 \<longleftrightarrow> map_of out1 k \<noteq> None" by (simp add: map_of_eq_None_iff)
    also have "\<dots> \<longleftrightarrow> k \<in> fst ` set (out s) \<and> \<not> notInArgs k (map Some projArgs)"
    proof -
      have "map_of (out s) k \<noteq> None \<longleftrightarrow> k \<in> fst ` set (out s)"
        by (simp add: map_of_eq_None_iff)
      then show ?thesis unfolding m by auto
    qed
    also have "\<dots> \<longleftrightarrow> k \<in> fst ` set (out s) \<inter> set projArgs"
      by (auto simp: notInArgs_def)
    finally show ?thesis .
  qed
  then have k: "fst ` set out1 = fst ` set (out s) \<inter> set projArgs" by blast
  have "resolveProjection projArgs s scope =
          Inr (s\<lparr>args := map Some projArgs, types := map (typeAt s) projArgs,
                 index := projectionIndex projArgs, out := out1\<rparr>, scope1)"
    by (simp add: resolveProjection_def f d Let_def)
  then show "\<exists>s' scope'. resolveProjection projArgs s scope = Inr (s', scope') \<and>
         args s' = map Some projArgs \<and>
         fst ` set (index s') = set projArgs \<and>
         (\<forall>n \<in> set projArgs. \<exists>i < length projArgs.
             map_of (index s') n = Some (Some i) \<and> projArgs ! i = n) \<and>
         fst ` set (out s') = fst ` set (out s) \<inter> set projArgs"
    using k projectionIndex_keys[of projArgs] projectionIndex_position[of _ projArgs] by simp
qed

theorem resolveProjection_schema_witness:
  "(\<exists>a. resolveProjection [''title'', ''url''] searchSchema (Scope_new None) = Inl (InvalidFieldName a)) \<and>
   (\<exists>s' scope'. resolveProjection [''title''] searchSchema (Scope_new None) = Inr (s', scope') \<and>
      args s' = [Some ''title''] \<and>
      map_of (index s') ''title'' = Some (Some 0) \<and>
      fst ` set (out s') = {''title''})"
proof -
  have a: "\<exists>a \<in> set [''title'', ''url'']. Some a \<notin> set (args searchSchema)"
    by (simp add: searchSchema_def)
  have b: "\<forall>a \<in> set [''title'']. Some a \<in> set (args searchSchema)"
    by (simp add: searchSchema_def)
  have o: "fst ` set (out searchSchema) \<inter> set [''title''] = {''title''}"
    by (simp add: searchSchema_def)
  note t1 = resolveProjection_schema[of "[''title'', ''url'']" searchSchema "Scope_new None",
      THEN conjunct1, THEN mp, OF a]
  note t2 = resolveProjection_schema[of "[''title'']" searchSchema "Scope_new None",
      THEN conjunct2, THEN mp, OF b]
  from t2 obtain s' scope' where
    r1: "resolveProjection [''title''] searchSchema (Scope_new None) = Inr (s', scope')" and
    r2: "args s' = map Some [''title'']" and
    r3: "\<forall>n \<in> set [''title'']. \<exists>i < length [''title'']. map_of (index s') n = Some (Some i) \<and> [''title''] ! i = n" and
    r4: "fst ` set (out s') = fst ` set (out searchSchema) \<inter> set [''title'']"
    by (elim exE conjE)
  from r3 have r5: "map_of (index s') ''title'' = Some (Some 0)" by simp
  have "args s' = [Some ''title'']" using r2 by simp
  moreover have "fst ` set (out s') = {''title''}" using r4 o by simp
  ultimately have "\<exists>s' scope'. resolveProjection [''title''] searchSchema (Scope_new None) = Inr (s', scope') \<and>
      args s' = [Some ''title''] \<and>
      map_of (index s') ''title'' = Some (Some 0) \<and>
      fst ` set (out s') = {''title''}" using r1 r5 by (intro exI conjI)
  with t1 show ?thesis by (intro conjI)
qed

section \<open>Rules\<close>


text \<open>Without a schema object for the built-in, the check of the action fails.\<close>

lemma typeCheckOutput_notify_no_schema:
  assumes "inv_selector action = Selector_Builtin" "inv_channel action = ''notify''"
    "inv_schema action = None" "action_notify env = None"
  shows "typeCheckOutput env classes action scope st isDeclaration = Inl JsCrash"
  using assms by (simp add: typeCheckOutput_def)




text \<open>
  C6, at the input where the code departs from the claim: the program with the one rule
  \<^verbatim>\<open>timer(...) join @org.thingpedia.weather.current() => notify\<close>. Two checks in a row
  succeed, but the schema of the join differs between them: its \<^verbatim>\<open>index\<close> maps
  \<^verbatim>\<open>temperature\<close> to 0 after the first check and to 1 after the second. (\<^verbatim>\<open>resolveJoin\<close>
  writes the arguments of the right side into the \<^verbatim>\<open>index\<close> of the left schema, here
  the built-in \<^verbatim>\<open>emptyFunction\<close> of the timer, where the second check finds them.)
\<close>

theorem second_check_changes_join_index:
  "(case typeCheckProgram exampleEnv timerProgram exampleStore of
      Inl e \<Rightarrow> False
    | Inr (p1, st1) \<Rightarrow>
        (case typeCheckProgram exampleEnv p1 st1 of
           Inl e \<Rightarrow> False
         | Inr (p2, st2) \<Rightarrow>
             ruleIndexes p1 st1 = [Some [(''temperature'', Some 0)]] \<and>
             ruleIndexes p2 st2 = [Some [(''temperature'', Some 1)]]))"
  by code_simp

section \<open>Fresh schemas\<close>


lemma objs_set_upd [simp]:
  "length (objs (set_args a v1 st)) = length (objs st)"
  "length (objs (set_types a v2 st)) = length (objs st)"
  "length (objs (set_index a v3 st)) = length (objs st)"
  "length (objs (set_inReq a v4 st)) = length (objs st)"
  "length (objs (set_inOpt a v4 st)) = length (objs st)"
  "length (objs (set_out a v4 st)) = length (objs st)"
  "length (objs (upd_args a v1 st)) = length (objs st)"
  "length (objs (upd_types a v2 st)) = length (objs st)"
  "length (objs (upd_index a v3 st)) = length (objs st)"
  "length (objs (upd_inReq a v4 st)) = length (objs st)"
  "length (objs (upd_inOpt a v4 st)) = length (objs st)"
  "length (objs (upd_out a v4 st)) = length (objs st)"
  "length (objs (share_index j l st)) = length (objs st)"
  by (simp_all add: set_args_def set_types_def set_index_def set_inReq_def set_inOpt_def
      set_out_def upd_args_def upd_types_def upd_index_def upd_inReq_def upd_inOpt_def upd_out_def
      share_index_def)















lemma fresh_range_mono:
  "fresh_range cs n0 n1 \<Longrightarrow> n1 \<le> n2 \<Longrightarrow> fresh_range cs n0 n2"
  by (fastforce simp: fresh_range_def)


lemma store_newOutput_objs [simp]:
  "length (objs (store_newOutput a s' st)) = length (objs st)"
  by (simp add: store_newOutput_def)

















end
